theory Spec2Isabelle
  imports Complex_Main "HOL-Library.AList"
begin

section \<open>Position lifecycle engine of the trading webhook (src/main.py)\<close>

text \<open>
  The development embeds the position lifecycle engine of \<^verbatim>\<open>src/main.py\<close>: the ladder
  arithmetic (\<^verbatim>\<open>round_qty\<close>, \<^verbatim>\<open>calculate_quantity\<close>, \<^verbatim>\<open>calculate_pnl\<close>), the order
  executor (\<^verbatim>\<open>wait_for_order_execution\<close>, \<^verbatim>\<open>place_tp_sl_orders_with_retry\<close>,
  \<^verbatim>\<open>place_binance_order\<close>), the state file (\<^verbatim>\<open>load_state\<close>, \<^verbatim>\<open>save_state\<close>), the
  signal handler (\<^verbatim>\<open>webhook\<close>) and the monitor (\<^verbatim>\<open>monitor_loop\<close>,
  \<^verbatim>\<open>handle_reinforcement\<close>).

  Conventions of the embedding.
  \<^item> Python floats and \<^verbatim>\<open>Decimal\<close> values are exact rationals (\<open>rat\<close>): a float
    operation returns the exact result where the code gets the nearest double, so a value
    computed here can differ from the code's in its last digits (and, after a rounding of
    the code, by one unit of that rounding). The general statements below about computed
    amounts are limited to their sign and to the branch the code takes; the amounts of
    the concrete scenarios are the decimals that the code prints for them.
  \<^item> Every \<^verbatim>\<open>raise\<close> is a value \<open>Inl e\<close> of a sum type, or \<open>Some e\<close> where the
    function returns nothing.
  \<^item> The exchange client is a record of oracles (\<open>env\<close>), one per call of the
    client the code makes; a call that is repeated in a loop takes the attempt number.
  \<^item> A dictionary whose iteration order matters is an association list; \<open>map_of\<close>
    reads it, \<open>AList.update\<close> writes a key in place (or appends a new key), as a Python
    \<^verbatim>\<open>dict\<close> does.
  \<^item> String literals of the source that carry accents are written without them.
  \<^item> \<^verbatim>\<open>cancel_order\<close> and the logging calls catch their own exceptions and return
    nothing the code reads; they are left out.
\<close>

subsection \<open>Errors\<close>

text \<open>
  \<open>HTTPException c d\<close> is FastAPI's exception with status code \<open>c\<close> and detail \<open>d\<close>;
  \<open>Exception m\<close> is any other Python exception, named by \<open>m\<close>;
  \<open>HTTPException_500 e\<close> is \<^verbatim>\<open>HTTPException(status_code=500, detail=str(e))\<close>, built by
  the outer handler of \<^verbatim>\<open>webhook\<close> from the exception \<open>e\<close> it caught.
\<close>

datatype error =
    Exception string
  | HTTPException nat string
  | HTTPException_500 error

fun status_code :: "error \<Rightarrow> nat option" where
  "status_code (Exception m) = None"
| "status_code (HTTPException c d) = Some c"
| "status_code (HTTPException_500 e) = Some 500"

subsection \<open>Ladder levels\<close>

record level_config =
  capital :: rat
  leverage :: rat
  tp_pct :: rat
  sl_pct :: rat

definition LEVELS :: "level_config list" where
  "LEVELS =
    [\<lparr>capital = 1, leverage = 50, tp_pct = 3 / 1000, sl_pct = 3 / 1000\<rparr>,
     \<lparr>capital = 2, leverage = 50, tp_pct = 3 / 1000, sl_pct = 3 / 1000\<rparr>,
     \<lparr>capital = 9 / 2, leverage = 50, tp_pct = 3 / 1000, sl_pct = 3 / 1000\<rparr>,
     \<lparr>capital = 19 / 2, leverage = 50, tp_pct = 3 / 1000, sl_pct = 3 / 1000\<rparr>,
     \<lparr>capital = 16, leverage = 65, tp_pct = 3 / 1000, sl_pct = 3 / 1000\<rparr>]"

text \<open>
  \<^verbatim>\<open>LEVELS[i]\<close>: an index from \<open>0\<close> reads from the front, an index from \<open>-1\<close> down
  to minus the length reads from the back, and any other index raises.
\<close>

definition py_index :: "'a list \<Rightarrow> int \<Rightarrow> error + 'a" where
  "py_index xs i =
     (if 0 \<le> i \<and> i < int (length xs) then Inr (xs ! nat i)
      else if i < 0 \<and> - int (length xs) \<le> i then Inr (xs ! nat (int (length xs) + i))
      else Inl (Exception ''IndexError''))"

text \<open>
  \<^verbatim>\<open>str.upper\<close> on ASCII letters (the directions the code compares with are ASCII).
\<close>

definition upper_char :: "char \<Rightarrow> char" where
  "upper_char c =
     (let n = (of_char c :: nat) in if 97 \<le> n \<and> n \<le> 122 then char_of (n - 32) else c)"

definition upper :: "string \<Rightarrow> string" where
  "upper s = map upper_char s"

text \<open>
  Python's \<^verbatim>\<open>round(x, n)\<close>: to \<open>n\<close> decimal places, a tie going to the even
  neighbour.
\<close>

definition round_half_even :: "rat \<Rightarrow> int" where
  "round_half_even y =
     (let f = \<lfloor>y\<rfloor>; d = y - of_int f
      in if d < 1 / 2 then f else if 1 / 2 < d then f + 1 else if even f then f else f + 1)"

definition py_round :: "rat \<Rightarrow> nat \<Rightarrow> rat" where
  "py_round x n = of_int (round_half_even (x * 10 ^ n)) / 10 ^ n"

subsection \<open>Positions and the durable state\<close>

text \<open>
  The \<^verbatim>\<open>timestamp\<close> of a position is an ISO string: empty, unparseable, or a time (in
  seconds). An order id is \<^verbatim>\<open>None\<close> or an integer.
\<close>

datatype tstamp = NoTimestamp | BadTimestamp | At rat

record position =
  signal :: string
  current_level :: int
  is_active :: bool
  quantity :: rat
  entry_price :: rat
  pos_capital :: rat
  pos_leverage :: rat
  order_id :: int
  tp_order_id :: "int option"
  sl_order_id :: "int option"
  alert_id :: string
  timestamp :: tstamp
  pending_reinforcement :: bool
  next_level :: int

record state =
  positions :: "(string \<times> position) list"
  processed_alerts :: "(string \<times> int) list"

subsection \<open>LadderCalculator: realized PnL\<close>

text \<open>
  \<^verbatim>\<open>calculate_pnl(position, close_type, close_price=None)\<close>. The body runs inside
  \<^verbatim>\<open>try\<close>; \<open>pnl_close_price\<close> and \<open>pnl_raw\<close> are the values it computes, and
  any exception (an index outside \<^verbatim>\<open>LEVELS\<close>, arithmetic on a \<^verbatim>\<open>None\<close> close price) makes
  \<open>calculate_pnl\<close> return \<open>0\<close>.
\<close>

definition pnl_close_price :: "position \<Rightarrow> string \<Rightarrow> rat option \<Rightarrow> error + rat option" where
  "pnl_close_price p close_type close_price =
     (if close_type = ''TP'' then
        (case py_index LEVELS (current_level p - 1) of
           Inl e \<Rightarrow> Inl e
         | Inr cfg \<Rightarrow>
             if upper (signal p) = ''BUY'' then Inr (Some (entry_price p * (1 + tp_pct cfg)))
             else Inr (Some (entry_price p * (1 - tp_pct cfg))))
      else if close_type = ''SL'' then
        (case py_index LEVELS (current_level p - 1) of
           Inl e \<Rightarrow> Inl e
         | Inr cfg \<Rightarrow>
             if upper (signal p) = ''BUY'' then Inr (Some (entry_price p * (1 - sl_pct cfg)))
             else Inr (Some (entry_price p * (1 + sl_pct cfg))))
      else if close_price = None \<and> close_type = ''MANUAL'' then Inr (Some (entry_price p))
      else Inr close_price)"

definition pnl_raw :: "position \<Rightarrow> string \<Rightarrow> rat option \<Rightarrow> error + rat" where
  "pnl_raw p close_type close_price =
     (case pnl_close_price p close_type close_price of
        Inl e \<Rightarrow> Inl e
      | Inr None \<Rightarrow> Inl (Exception ''TypeError'')
      | Inr (Some c) \<Rightarrow>
          if upper (signal p) = ''BUY'' then Inr ((c - entry_price p) * quantity p)
          else Inr ((entry_price p - c) * quantity p))"

definition calculate_pnl :: "position \<Rightarrow> string \<Rightarrow> rat option \<Rightarrow> rat" where
  "calculate_pnl p close_type close_price =
     (case pnl_raw p close_type close_price of
        Inl e \<Rightarrow> 0
      | Inr pnl \<Rightarrow> py_round pnl 4)"

subsection \<open>LadderCalculator: quantity sizing\<close>

text \<open>
  The part of the exchange's symbol table the code reads: per symbol, the \<^verbatim>\<open>stepSize\<close>
  of its \<^verbatim>\<open>LOT_SIZE\<close> filter, when it has one.
\<close>

record symbol_info =
  sym_name :: string
  lot_step :: "rat option"

record order_resp =
  status :: string
  avgPrice :: rat
  executedQty :: rat

text \<open>
  A save of the state file can complete, fail when the file is opened, or fail while
  \<^verbatim>\<open>json.dump\<close> writes into the opened file.
\<close>

datatype fault = NoFault | OpenFails | WriteFails

text \<open>
  The environment of one operation (one call of \<^verbatim>\<open>webhook\<close>, one iteration of
  \<^verbatim>\<open>monitor_loop\<close>): the exchange client, the disk, the symbol locks and the clock.
  A call of the client returns its result or the name of the exception it raises (the
  client raises its own exceptions, never FastAPI's \<^verbatim>\<open>HTTPException\<close>).
  \<open>futures_exchange_info\<close> is the symbol table (or the exception of the call);
  \<open>price_precision\<close> is what \<^verbatim>\<open>get_price_precision\<close> returns (it never raises);
  \<open>futures_change_leverage\<close> returns the exception it raises, if any;
  \<open>futures_create_order\<close> is the MARKET entry order and returns the order id;
  \<open>futures_get_order sym oid i\<close> is the \<open>i\<close>-th poll of an order;
  \<open>futures_create_close_order sym side type stop i\<close> is the \<open>i\<close>-th attempt to place a
  \<^verbatim>\<open>closePosition\<close> order and returns \<^verbatim>\<open>order.get("orderId")\<close>;
  \<open>futures_get_open_orders\<close> returns the \<^verbatim>\<open>type\<close> of each open order;
  \<open>save_fault sym\<close> is the outcome of the save made while \<open>sym\<close> is handled;
  \<open>lock_acquire sym\<close> tells whether the lock of \<open>sym\<close> is obtained;
  \<open>now\<close> is the clock, in seconds.
\<close>

record env =
  futures_exchange_info :: "string + symbol_info list"
  price_precision :: "string \<Rightarrow> nat"
  futures_change_leverage :: "string \<Rightarrow> rat \<Rightarrow> string option"
  futures_create_order :: "string \<Rightarrow> string \<Rightarrow> rat \<Rightarrow> string + int"
  futures_get_order :: "string \<Rightarrow> int \<Rightarrow> nat \<Rightarrow> string + order_resp"
  futures_symbol_ticker :: "string \<Rightarrow> string + rat"
  futures_create_close_order ::
    "string \<Rightarrow> string \<Rightarrow> string \<Rightarrow> rat \<Rightarrow> nat \<Rightarrow> string + int option"
  futures_get_open_orders :: "string \<Rightarrow> string + string list"
  save_fault :: "string \<Rightarrow> fault"
  lock_acquire :: "string \<Rightarrow> bool"
  now :: rat

definition fetch_symbol_info :: "env \<Rightarrow> string \<Rightarrow> error + symbol_info" where
  "fetch_symbol_info ex symbol =
     (case futures_exchange_info ex of
        Inl m \<Rightarrow> Inl (Exception m)
      | Inr infos \<Rightarrow>
          (case find (\<lambda>s. sym_name s = symbol) infos of
             None \<Rightarrow> Inl (Exception ''Symbole non trouve'')
           | Some s \<Rightarrow> Inr s))"

definition get_step_size :: "env \<Rightarrow> string \<Rightarrow> error + rat" where
  "get_step_size ex symbol =
     (case fetch_symbol_info ex symbol of
        Inl e \<Rightarrow> Inl e
      | Inr s \<Rightarrow> (case lot_step s of Some st \<Rightarrow> Inr st | None \<Rightarrow> Inr (1 / 10000)))"

text \<open>
  \<^verbatim>\<open>Decimal.__floordiv__\<close> returns the integer part of the quotient, truncated towards
  zero. It raises \<^verbatim>\<open>DivisionByZero\<close> on a zero divisor (\<^verbatim>\<open>InvalidOperation\<close> for
  \<^verbatim>\<open>0 // 0\<close>) and \<^verbatim>\<open>InvalidOperation\<close> when the integer part does not fit the 28
  digits of the decimal context. \<^verbatim>\<open>quantize(step_dec, ROUND_DOWN)\<close> leaves a multiple of
  \<open>step\<close> as it is; the rounding of the product to 28 digits is not modelled.
\<close>

definition int_part :: "rat \<Rightarrow> int" where
  "int_part x = (if 0 \<le> x then \<lfloor>x\<rfloor> else \<lceil>x\<rceil>)"

definition round_qty :: "rat \<Rightarrow> rat \<Rightarrow> error + rat" where
  "round_qty qty step =
     (if step = 0 then
        (if qty = 0 then Inl (Exception ''decimal.InvalidOperation'')
         else Inl (Exception ''decimal.DivisionByZero''))
      else if 10 ^ 28 \<le> \<bar>int_part (qty / step)\<bar>
      then Inl (Exception ''decimal.InvalidOperation'')
      else Inr (of_int (int_part (qty / step)) * step))"

definition calculate_quantity :: "env \<Rightarrow> rat \<Rightarrow> rat \<Rightarrow> rat \<Rightarrow> string \<Rightarrow> error + rat" where
  "calculate_quantity ex cap lev price symbol =
     (let notional = cap * lev in
      if price = 0 then Inl (Exception ''ZeroDivisionError'')
      else
        (let raw_quantity = notional / price in
         case get_step_size ex symbol of
           Inl e \<Rightarrow> Inl e
         | Inr step \<Rightarrow> round_qty raw_quantity step))"

subsection \<open>OrderExecutor\<close>

text \<open>
  One pass of the body of the polling loop of \<^verbatim>\<open>wait_for_order_execution\<close>, inside
  its \<^verbatim>\<open>try\<close>: \<open>Inr (Some p)\<close> is \<^verbatim>\<open>return avg_price\<close>, \<open>Inr None\<close> falls out of the
  \<^verbatim>\<open>if\<close>, \<open>Inl e\<close> is an exception raised in the \<^verbatim>\<open>try\<close> block, the
  \<^verbatim>\<open>raise Exception(f"Ordre {status}")\<close> of a terminal status among them.
\<close>

definition poll_order :: "env \<Rightarrow> string \<Rightarrow> int \<Rightarrow> nat \<Rightarrow> error + rat option" where
  "poll_order ex symbol oid i =
     (case futures_get_order ex symbol oid i of
        Inl m \<Rightarrow> Inl (Exception m)
      | Inr r \<Rightarrow>
          if status r = ''FILLED'' \<and> 0 < avgPrice r then Inr (Some (avgPrice r))
          else if status r \<in> set [''CANCELED'', ''EXPIRED'', ''REJECTED'']
          then Inl (Exception (''Ordre '' @ status r))
          else Inr None)"

text \<open>
  The loop \<^verbatim>\<open>for i in range(max_attempts)\<close>, from attempt \<open>i\<close> with \<open>k\<close> attempts left.
  The \<^verbatim>\<open>except Exception\<close> of the loop body catches every exception of the
  \<^verbatim>\<open>try\<close> block, logs it, and the loop goes on.
\<close>

fun poll_loop :: "env \<Rightarrow> string \<Rightarrow> int \<Rightarrow> nat \<Rightarrow> nat \<Rightarrow> rat option" where
  "poll_loop ex symbol oid i 0 = None"
| "poll_loop ex symbol oid i (Suc k) =
     (case poll_order ex symbol oid i of
        Inr (Some p) \<Rightarrow> Some p
      | Inr None \<Rightarrow> poll_loop ex symbol oid (Suc i) k
      | Inl e \<Rightarrow> poll_loop ex symbol oid (Suc i) k)"

definition wait_for_order_execution :: "env \<Rightarrow> string \<Rightarrow> int \<Rightarrow> nat \<Rightarrow> error + rat" where
  "wait_for_order_execution ex symbol oid max_attempts =
     (case poll_loop ex symbol oid 0 max_attempts of
        Some p \<Rightarrow> Inr p
      | None \<Rightarrow>
          (case futures_symbol_ticker ex symbol of
             Inl m \<Rightarrow> Inl (Exception m)
           | Inr current_price \<Rightarrow> Inr current_price))"

text \<open>
  A retry loop of \<^verbatim>\<open>place_tp_sl_orders_with_retry\<close>: the first attempt that does not
  raise gives the order id, and \<^verbatim>\<open>None\<close> is left when every attempt raised.
\<close>

fun retry_close_order ::
  "env \<Rightarrow> string \<Rightarrow> string \<Rightarrow> string \<Rightarrow> rat \<Rightarrow> nat \<Rightarrow> nat \<Rightarrow> int option" where
  "retry_close_order ex symbol side ty stop i 0 = None"
| "retry_close_order ex symbol side ty stop i (Suc k) =
     (case futures_create_close_order ex symbol side ty stop i of
        Inr oid \<Rightarrow> oid
      | Inl m \<Rightarrow> retry_close_order ex symbol side ty stop (Suc i) k)"

definition place_tp_sl_orders_with_retry ::
  "env \<Rightarrow> string \<Rightarrow> string \<Rightarrow> rat \<Rightarrow> level_config \<Rightarrow> nat \<Rightarrow> int option \<times> int option" where
  "place_tp_sl_orders_with_retry ex symbol sig entry cfg max_retries =
     (let buy = (upper sig = ''BUY'');
          tp_price = (if buy then entry * (1 + tp_pct cfg) else entry * (1 - tp_pct cfg));
          sl_price = (if buy then entry * (1 - sl_pct cfg) else entry * (1 + sl_pct cfg));
          side = (if buy then ''SELL'' else ''BUY'');
          tp_price = py_round tp_price (price_precision ex symbol);
          sl_price = py_round sl_price (price_precision ex symbol)
      in (retry_close_order ex symbol side ''TAKE_PROFIT_MARKET'' tp_price 0 max_retries,
          retry_close_order ex symbol side ''STOP_MARKET'' sl_price 0 max_retries))"

definition place_binance_order ::
  "env \<Rightarrow> string \<Rightarrow> string \<Rightarrow> rat \<Rightarrow> level_config
     \<Rightarrow> error + (int \<times> rat \<times> int option \<times> int option)" where
  "place_binance_order ex symbol sig qty cfg =
     (case futures_change_leverage ex symbol (leverage cfg) of
        Some m \<Rightarrow> Inl (Exception m)
      | None \<Rightarrow>
          (let side = (if upper sig = ''BUY'' then ''BUY'' else ''SELL'') in
           case futures_create_order ex symbol side qty of
             Inl m \<Rightarrow> Inl (Exception m)
           | Inr oid \<Rightarrow>
               (case wait_for_order_execution ex symbol oid 10 of
                  Inl e \<Rightarrow> Inl e
                | Inr entry \<Rightarrow>
                    (let (tp, sl) = place_tp_sl_orders_with_retry ex symbol sig entry cfg 3
                     in Inr (oid, entry, tp, sl)))))"

text \<open>
  \<^verbatim>\<open>get_position_amount\<close>: \<open>1\<close> when an open order is a take-profit or a stop-loss, and
  when the query raises; \<open>0\<close> otherwise.
\<close>

definition get_position_amount :: "env \<Rightarrow> string \<Rightarrow> rat" where
  "get_position_amount ex symbol =
     (case futures_get_open_orders ex symbol of
        Inl m \<Rightarrow> 1
      | Inr types \<Rightarrow>
          if list_ex (\<lambda>t. t \<in> set [''STOP_MARKET'', ''TAKE_PROFIT_MARKET'']) types then 1
          else 0)"

text \<open>
  \<^verbatim>\<open>get_order_status\<close>: the status of the order, \<^verbatim>\<open>None\<close> when the query raises.
\<close>

definition get_order_status :: "env \<Rightarrow> string \<Rightarrow> int \<Rightarrow> string option" where
  "get_order_status ex symbol oid =
     (case futures_get_order ex symbol oid 0 of
        Inl m \<Rightarrow> None
      | Inr r \<Rightarrow> Some (status r))"

subsection \<open>StateStore\<close>

text \<open>
  The state file: absent, holding the JSON of a state, or holding a strict prefix of a
  JSON object (which \<^verbatim>\<open>json.load\<close> rejects). \<^verbatim>\<open>load_state\<close> catches
  \<^verbatim>\<open>FileNotFoundError\<close> only.
\<close>

datatype state_file = Missing | Snapshot state | Truncated

definition load_state :: "state_file \<Rightarrow> error + state" where
  "load_state f =
     (case f of
        Missing \<Rightarrow> Inr \<lparr>positions = [], processed_alerts = []\<rparr>
      | Snapshot st \<Rightarrow> Inr st
      | Truncated \<Rightarrow> Inl (Exception ''json.JSONDecodeError''))"

text \<open>
  \<^verbatim>\<open>save_state\<close>: \<^verbatim>\<open>open(STATE_FILE_PATH, "w")\<close> empties the file it opens, then
  \<^verbatim>\<open>json.dump\<close> writes the new state into it piece by piece. The result is the exception
  raised, if any, and the file left behind.
\<close>

definition save_state :: "fault \<Rightarrow> state \<Rightarrow> state_file \<Rightarrow> error option \<times> state_file" where
  "save_state ft st f =
     (case ft of
        OpenFails \<Rightarrow> (Some (Exception ''OSError''), f)
      | WriteFails \<Rightarrow> (Some (Exception ''OSError''), Truncated)
      | NoFault \<Rightarrow> (None, Snapshot st))"

subsection \<open>The audit ledger\<close>

text \<open>
  A call of \<^verbatim>\<open>add_to_history(entry_type, data)\<close>; the function catches every exception
  of its own, so a call never changes the control flow of its caller.
\<close>

record history_row =
  entry_type :: string
  h_symbol :: string
  direction :: string
  level :: int
  h_entry_price :: rat
  h_quantity :: rat
  close_type :: string
  profit_loss :: rat
  next_reinforcement_level :: int

subsection \<open>SignalRouter: the webhook\<close>

record request =
  req_signal :: "string option"
  req_symbol :: "string option"
  req_price :: "rat option"
  req_time :: "string option"

datatype message = Renforcement string int | Position_ouverte string

record details =
  d_symbol :: string
  d_quantity :: rat
  d_entry_price :: rat
  d_capital :: rat
  d_leverage :: rat
  d_order_id :: int
  d_current_level :: int

datatype response = Success message details | Ignored string

text \<open>
  Every branch below returns the response or the exception raised, the state file it
  leaves, and the ledger calls it made.

  The reinforcement block of \<^verbatim>\<open>webhook\<close> (the body of
  \<^verbatim>\<open>if position.get("pending_reinforcement", False)\<close>), for the stored position \<open>p\<close> of
  the symbol.
\<close>

definition reinforce ::
  "env \<Rightarrow> string \<Rightarrow> string \<Rightarrow> rat \<Rightarrow> state \<Rightarrow> position \<Rightarrow> state_file
     \<Rightarrow> (error + response) \<times> state_file \<times> history_row list" where
  "reinforce ex symbol sig price st p f =
     (let nl = next_level p in
      case py_index LEVELS (nl - 1) of
        Inl e \<Rightarrow> (Inl e, f, [])
      | Inr cfg \<Rightarrow>
          (case calculate_quantity ex (capital cfg) (leverage cfg) price symbol of
             Inl e \<Rightarrow> (Inl e, f, [])
           | Inr q \<Rightarrow>
               if q \<le> 0 then (Inl (HTTPException 400 ''Quantite invalide''), f, [])
               else
                 (case place_binance_order ex symbol sig q cfg of
                    Inl e \<Rightarrow> (Inl e, f, [])
                  | Inr (oid, entry, tp, sl) \<Rightarrow>
                      (let row = \<lparr>entry_type = ''REINFORCEMENT_OPENED'', h_symbol = symbol,
                                  direction = sig, level = nl, h_entry_price = entry,
                                  h_quantity = q, close_type = [], profit_loss = 0,
                                  next_reinforcement_level =
                                    (if nl < int (length LEVELS) then nl + 1 else 1)\<rparr>;
                           p' = p\<lparr>is_active := True, pending_reinforcement := False,
                                  current_level := nl, signal := sig, quantity := q,
                                  entry_price := entry, pos_capital := capital cfg,
                                  pos_leverage := leverage cfg, order_id := oid,
                                  tp_order_id := tp, sl_order_id := sl,
                                  timestamp := At (now ex)\<rparr>;
                           st' = st\<lparr>positions := AList.update symbol p' (positions st)\<rparr>
                       in case save_state (save_fault ex symbol) st' f of
                            (Some e, f') \<Rightarrow> (Inl e, f', [row])
                          | (None, f') \<Rightarrow>
                              (Inr (Success (Renforcement sig nl)
                                 \<lparr>d_symbol = symbol, d_quantity = q, d_entry_price = entry,
                                  d_capital = capital cfg, d_leverage = leverage cfg,
                                  d_order_id = oid, d_current_level = nl\<rparr>), f', [row])))))"

text \<open>
  The block that opens a new position at level 1, for the in-memory state \<open>st\<close> and
  the alert id \<open>aid\<close>.
\<close>

definition open_position ::
  "env \<Rightarrow> string \<Rightarrow> string \<Rightarrow> rat \<Rightarrow> string \<Rightarrow> state \<Rightarrow> state_file
     \<Rightarrow> (error + response) \<times> state_file \<times> history_row list" where
  "open_position ex symbol sig price aid st f =
     (case py_index LEVELS 0 of
        Inl e \<Rightarrow> (Inl e, f, [])
      | Inr cfg \<Rightarrow>
          (case calculate_quantity ex (capital cfg) (leverage cfg) price symbol of
             Inl e \<Rightarrow> (Inl e, f, [])
           | Inr q \<Rightarrow>
               if q \<le> 0 then (Inl (HTTPException 400 ''Quantite invalide''), f, [])
               else
                 (case place_binance_order ex symbol sig q cfg of
                    Inl e \<Rightarrow> (Inl e, f, [])
                  | Inr (oid, entry, tp, sl) \<Rightarrow>
                      (let row = \<lparr>entry_type = ''POSITION_OPENED'', h_symbol = symbol,
                                  direction = sig, level = 1, h_entry_price = entry,
                                  h_quantity = q, close_type = [], profit_loss = 0,
                                  next_reinforcement_level = 2\<rparr>;
                           p' = \<lparr>signal = sig, current_level = 1, is_active = True,
                                 quantity = q, entry_price = entry,
                                 pos_capital = capital cfg, pos_leverage = leverage cfg,
                                 order_id = oid, tp_order_id = tp, sl_order_id = sl,
                                 alert_id = aid, timestamp = At (now ex),
                                 pending_reinforcement = False, next_level = 1\<rparr>;
                           st' = st\<lparr>positions := AList.update symbol p' (positions st)\<rparr>
                       in case save_state (save_fault ex symbol) st' f of
                            (Some e, f') \<Rightarrow> (Inl e, f', [row])
                          | (None, f') \<Rightarrow>
                              (Inr (Success (Position_ouverte sig)
                                 \<lparr>d_symbol = symbol, d_quantity = q, d_entry_price = entry,
                                  d_capital = capital cfg, d_leverage = leverage cfg,
                                  d_order_id = oid, d_current_level = 1\<rparr>), f', [row])))))"

text \<open>
  The deduplication check, the check of an active position, and the opening:
  \<^verbatim>\<open>alert_id = f"{symbol}_{signal}_{data.get('time', '')}"\<close>. The entry added to
  \<^verbatim>\<open>processed_alerts\<close> and the deletion of a stale position change the state in memory;
  they reach the file with the save of \<open>open_position\<close> only.
\<close>

definition make_alert_id :: "string \<Rightarrow> string \<Rightarrow> string option \<Rightarrow> string" where
  "make_alert_id symbol sig t =
     symbol @ ''_'' @ sig @ ''_'' @ (case t of None \<Rightarrow> [] | Some s \<Rightarrow> s)"

definition dedup_and_open ::
  "env \<Rightarrow> string \<Rightarrow> string \<Rightarrow> rat \<Rightarrow> string option \<Rightarrow> state \<Rightarrow> state_file
     \<Rightarrow> (error + response) \<times> state_file \<times> history_row list" where
  "dedup_and_open ex symbol sig price t st f =
     (let aid = make_alert_id symbol sig t in
      if map_of (processed_alerts st) aid \<noteq> None
      then (Inr (Ignored ''duplicate_alert''), f, [])
      else
        (let st1 = st\<lparr>processed_alerts :=
                         AList.update aid (int_part (now ex)) (processed_alerts st)\<rparr>
         in case map_of (positions st1) symbol of
              None \<Rightarrow> open_position ex symbol sig price aid st1 f
            | Some p \<Rightarrow>
                if is_active p then
                  (if get_position_amount ex symbol \<noteq> 0
                   then (Inr (Ignored ''position_already_open''), f, [])
                   else open_position ex symbol sig price aid
                          (st1\<lparr>positions := AList.delete symbol (positions st1)\<rparr>) f)
                else open_position ex symbol sig price aid st1 f))"

text \<open>The body of the inner \<^verbatim>\<open>try\<close> of \<^verbatim>\<open>webhook\<close>, run with the symbol lock held.\<close>

definition webhook_locked ::
  "env \<Rightarrow> string \<Rightarrow> string \<Rightarrow> rat \<Rightarrow> string option \<Rightarrow> state_file
     \<Rightarrow> (error + response) \<times> state_file \<times> history_row list" where
  "webhook_locked ex symbol sig price t f =
     (case load_state f of
        Inl e \<Rightarrow> (Inl e, f, [])
      | Inr st \<Rightarrow>
          (case map_of (positions st) symbol of
             None \<Rightarrow> dedup_and_open ex symbol sig price t st f
           | Some p \<Rightarrow>
               if pending_reinforcement p then reinforce ex symbol sig price st p f
               else dedup_and_open ex symbol sig price t st f))"

text \<open>
  The body of the outer \<^verbatim>\<open>try\<close>: \<^verbatim>\<open>not signal\<close> holds for an absent and for an empty
  signal; the symbol defaults to \<^verbatim>\<open>ETHUSDC\<close> and the price to \<open>0\<close>.
\<close>

definition default_symbol :: "request \<Rightarrow> string" where
  "default_symbol req = (case req_symbol req of None \<Rightarrow> ''ETHUSDC'' | Some s \<Rightarrow> s)"

definition default_price :: "request \<Rightarrow> rat" where
  "default_price req = (case req_price req of None \<Rightarrow> 0 | Some x \<Rightarrow> x)"

definition webhook_try ::
  "env \<Rightarrow> request \<Rightarrow> state_file \<Rightarrow> (error + response) \<times> state_file \<times> history_row list" where
  "webhook_try ex req f =
     (let sig = req_signal req;
          symbol = default_symbol req;
          price = default_price req
      in case sig of
           None \<Rightarrow> (Inl (HTTPException 400 ''Signal ou prix manquant''), f, [])
         | Some sg \<Rightarrow>
             if sg = [] \<or> price = 0
             then (Inl (HTTPException 400 ''Signal ou prix manquant''), f, [])
             else if \<not> lock_acquire ex symbol
             then (Inl (HTTPException 429 ''Symbole occupe''), f, [])
             else webhook_locked ex symbol sg price (req_time req) f)"

text \<open>
  \<^verbatim>\<open>webhook\<close>: the \<^verbatim>\<open>except Exception\<close> of the outer \<^verbatim>\<open>try\<close> catches every
  exception of the body, the \<^verbatim>\<open>HTTPException\<close>s raised there included, and raises an
  \<^verbatim>\<open>HTTPException\<close> with status 500 in its place.
\<close>

definition webhook ::
  "env \<Rightarrow> request \<Rightarrow> state_file \<Rightarrow> (error + response) \<times> state_file \<times> history_row list" where
  "webhook ex req f =
     (case webhook_try ex req f of
        (Inl e, f', rows) \<Rightarrow> (Inl (HTTPException_500 e), f', rows)
      | (Inr r, f', rows) \<Rightarrow> (Inr r, f', rows))"

text \<open>\<^verbatim>\<open>reset_state\<close>: the endpoint that saves the empty state.\<close>

definition reset_state :: "fault \<Rightarrow> state_file \<Rightarrow> error option \<times> state_file" where
  "reset_state ft f = save_state ft \<lparr>positions = [], processed_alerts = []\<rparr> f"

subsection \<open>PositionLifecycleEngine and PositionMonitor\<close>

text \<open>
  What \<^verbatim>\<open>monitor_loop\<close> carries while it runs: the state loaded into memory, the state
  file, its local variable \<^verbatim>\<open>time_diff\<close> (unbound until first assigned, and kept from one
  symbol and one iteration to the next), and the ledger calls made so far.
\<close>

record monitor_state =
  mem :: state
  disk :: state_file
  time_diff :: "rat option"
  ledger :: "history_row list"

text \<open>
  \<^verbatim>\<open>handle_reinforcement(symbol, signal, current_level, state, position)\<close>, where
  \<open>p\<close> is the position of \<open>symbol\<close> in the state in memory.
\<close>

definition handle_reinforcement ::
  "env \<Rightarrow> string \<Rightarrow> int \<Rightarrow> position \<Rightarrow> monitor_state \<Rightarrow> error option \<times> monitor_state" where
  "handle_reinforcement ex symbol cl p m =
     (let nl = cl + 1;
          p' = (if int (length LEVELS) < nl then p\<lparr>is_active := False\<rparr>
                else p\<lparr>is_active := False, pending_reinforcement := True, next_level := nl\<rparr>);
          st' = (mem m)\<lparr>positions := AList.update symbol p' (positions (mem m))\<rparr>;
          (eo, f') = save_state (save_fault ex symbol) st' (disk m)
      in (eo, m\<lparr>mem := st', disk := f'\<rparr>))"

definition closed_row :: "string \<Rightarrow> position \<Rightarrow> string \<Rightarrow> rat \<Rightarrow> int \<Rightarrow> history_row" where
  "closed_row symbol p ct pnl nxt =
     \<lparr>entry_type = ''POSITION_CLOSED'', h_symbol = symbol, direction = signal p,
      level = current_level p, h_entry_price = entry_price p, h_quantity = quantity p,
      close_type = ct, profit_loss = pnl, next_reinforcement_level = nxt\<rparr>"

text \<open>
  \<^verbatim>\<open>if tp_order_id:\<close> with the status check under it: an order id that is \<^verbatim>\<open>None\<close> or
  \<open>0\<close> is falsy and no status is asked for.
\<close>

definition order_fired :: "env \<Rightarrow> string \<Rightarrow> int option \<Rightarrow> bool" where
  "order_fired ex symbol oid =
     (case oid of
        None \<Rightarrow> False
      | Some i \<Rightarrow>
          i \<noteq> 0 \<and> get_order_status ex symbol i \<in> set [Some ''FILLED'', Some ''TRIGGERED''])"

text \<open>
  The body of the \<^verbatim>\<open>try\<close> that runs with the symbol lock held: the take-profit check,
  the stop-loss check, and the check of the position footprint. \<open>Some e\<close> is an
  exception that leaves the \<^verbatim>\<open>try\<close> (its \<^verbatim>\<open>finally\<close> releases the lock and catches
  nothing). Reading \<^verbatim>\<open>time_diff\<close> while it is unbound raises.
\<close>

definition check_position ::
  "env \<Rightarrow> monitor_state \<Rightarrow> string \<Rightarrow> position \<Rightarrow> error option \<times> monitor_state" where
  "check_position ex m symbol p =
     (if order_fired ex symbol (tp_order_id p) then
        (let row = closed_row symbol p ''TAKE_PROFIT'' (calculate_pnl p ''TP'' None) 1;
             st' = (mem m)\<lparr>positions :=
                      AList.update symbol (p\<lparr>is_active := False\<rparr>) (positions (mem m))\<rparr>;
             (eo, f') = save_state (save_fault ex symbol) st' (disk m)
         in (eo, m\<lparr>mem := st', disk := f', ledger := ledger m @ [row]\<rparr>))
      else if order_fired ex symbol (sl_order_id p) then
        (let cl = current_level p;
             row = closed_row symbol p ''STOP_LOSS'' (calculate_pnl p ''SL'' None)
                     (if cl < int (length LEVELS) then cl + 1 else 1)
         in handle_reinforcement ex symbol cl p (m\<lparr>ledger := ledger m @ [row]\<rparr>))
      else if get_position_amount ex symbol = 0 \<and> is_active p then
        (case time_diff m of
           None \<Rightarrow> (Some (Exception ''UnboundLocalError''), m)
         | Some d \<Rightarrow>
             if 60 < d then
               (case futures_symbol_ticker ex symbol of
                  Inl msg \<Rightarrow> (Some (Exception msg), m)
                | Inr current_price \<Rightarrow>
                    (let row = closed_row symbol p ''MANUAL''
                                 (calculate_pnl p ''MANUAL'' (Some current_price)) 1;
                         st' = (mem m)\<lparr>positions :=
                                  AList.update symbol (p\<lparr>is_active := False\<rparr>)
                                    (positions (mem m))\<rparr>;
                         (eo, f') = save_state (save_fault ex symbol) st' (disk m)
                     in (eo, m\<lparr>mem := st', disk := f', ledger := ledger m @ [row]\<rparr>)))
             else (None, m))
      else (None, m))"

text \<open>
  The body of \<^verbatim>\<open>for symbol, position in list(positions.items())\<close>: an inactive position
  is skipped; so is a position younger than 30 seconds, one whose timestamp does not
  parse, and one whose lock is taken. \<open>(None, m)\<close> goes on with the next symbol,
  \<open>(Some e, m)\<close> leaves the loop with the exception \<open>e\<close>.
\<close>

definition process_position ::
  "env \<Rightarrow> monitor_state \<Rightarrow> string \<times> position \<Rightarrow> error option \<times> monitor_state" where
  "process_position ex m sp =
     (let symbol = fst sp; p = snd sp in
      if \<not> is_active p then (None, m)
      else
        (case timestamp p of
           BadTimestamp \<Rightarrow> (None, m)
         | NoTimestamp \<Rightarrow>
             if \<not> lock_acquire ex symbol then (None, m) else check_position ex m symbol p
         | At t \<Rightarrow>
             (let d = now ex - t; m' = m\<lparr>time_diff := Some d\<rparr> in
              if d < 30 then (None, m')
              else if \<not> lock_acquire ex symbol then (None, m')
              else check_position ex m' symbol p)))"

fun for_positions ::
  "env \<Rightarrow> monitor_state \<Rightarrow> (string \<times> position) list \<Rightarrow> error option \<times> monitor_state" where
  "for_positions ex m [] = (None, m)"
| "for_positions ex m (sp # sps) =
     (case process_position ex m sp of
        (Some e, m') \<Rightarrow> (Some e, m')
      | (None, m') \<Rightarrow> for_positions ex m' sps)"

text \<open>
  One iteration of \<^verbatim>\<open>while True\<close>: the \<^verbatim>\<open>try\<close> holds the load of the state and the
  whole \<^verbatim>\<open>for\<close> loop, and its \<^verbatim>\<open>except Exception\<close> logs the exception. The result is
  the exception logged (if any), \<^verbatim>\<open>time_diff\<close>, the state file and the ledger calls of
  the iteration.
\<close>

definition monitor_iteration ::
  "env \<Rightarrow> rat option \<Rightarrow> state_file
     \<Rightarrow> error option \<times> rat option \<times> state_file \<times> history_row list" where
  "monitor_iteration ex td f =
     (case load_state f of
        Inl e \<Rightarrow> (Some e, td, f, [])
      | Inr st \<Rightarrow>
          (let (eo, m) = for_positions ex \<lparr>mem = st, disk = f, time_diff = td, ledger = []\<rparr>
                           (positions st)
           in (eo, time_diff m, disk m, ledger m)))"

text \<open>
  \<^verbatim>\<open>monitor_loop\<close> never returns; its first iterations, one environment for each, give
  the exceptions logged, the state file and the ledger calls.
\<close>

fun monitor_loop ::
  "env list \<Rightarrow> rat option \<Rightarrow> state_file \<Rightarrow> error option list \<times> state_file \<times> history_row list"
  where
  "monitor_loop [] td f = ([], f, [])"
| "monitor_loop (ex # exs) td f =
     (case monitor_iteration ex td f of
        (eo, td', f', rows) \<Rightarrow>
          (case monitor_loop exs td' f' of
             (eos, f'', rows') \<Rightarrow> (eo # eos, f'', rows @ rows')))"

section \<open>Specification-side definitions and concrete scenarios\<close>

text \<open>
  An exchange that lists \<^verbatim>\<open>ETHUSDC\<close> with lot step 0.001, fills every entry order at
  2000, quotes 2001 on the ticker, accepts the protective orders and shows them open;
  the disk works, the locks are free, the clock reads 1000.
\<close>

definition env_filled :: env where
  "env_filled =
     \<lparr>futures_exchange_info = Inr [\<lparr>sym_name = ''ETHUSDC'', lot_step = Some (1 / 1000)\<rparr>],
      price_precision = (\<lambda>s. 2),
      futures_change_leverage = (\<lambda>s l. None),
      futures_create_order = (\<lambda>s side q. Inr 7),
      futures_get_order =
        (\<lambda>s oid i. Inr \<lparr>status = ''FILLED'', avgPrice = 2000, executedQty = 1 / 40\<rparr>),
      futures_symbol_ticker = (\<lambda>s. Inr 2001),
      futures_create_close_order =
        (\<lambda>s side ty stop i. Inr (Some (if ty = ''TAKE_PROFIT_MARKET'' then 8 else 9))),
      futures_get_open_orders = (\<lambda>s. Inr [''TAKE_PROFIT_MARKET'', ''STOP_MARKET'']),
      save_fault = (\<lambda>s. NoFault),
      lock_acquire = (\<lambda>s. True),
      now = 1000\<rparr>"

text \<open>The same exchange, where every poll of an order reports it \<^verbatim>\<open>CANCELED\<close>.\<close>

definition env_canceled :: env where
  "env_canceled =
     env_filled\<lparr>futures_get_order :=
       (\<lambda>s oid i. Inr \<lparr>status = ''CANCELED'', avgPrice = 0, executedQty = 0\<rparr>)\<rparr>"

text \<open>A BUY signal for \<^verbatim>\<open>ETHUSDC\<close> at 2000 with no \<^verbatim>\<open>time\<close> field.\<close>

definition req_buy :: request where
  "req_buy =
     \<lparr>req_signal = Some ''BUY'', req_symbol = Some ''ETHUSDC'', req_price = Some 2000,
      req_time = None\<rparr>"

text \<open>The position that \<open>req_buy\<close> opens on \<open>env_filled\<close>, and the state saved with it.\<close>

definition pos_buy :: position where
  "pos_buy =
     \<lparr>signal = ''BUY'', current_level = 1, is_active = True, quantity = 1 / 40,
      entry_price = 2000, pos_capital = 1, pos_leverage = 50, order_id = 7,
      tp_order_id = Some 8, sl_order_id = Some 9, alert_id = ''ETHUSDC_BUY_'',
      timestamp = At 1000, pending_reinforcement = False, next_level = 1\<rparr>"

definition st_open :: state where
  "st_open = \<lparr>positions = [(''ETHUSDC'', pos_buy)], processed_alerts = [(''ETHUSDC_BUY_'', 1000)]\<rparr>"

definition st_empty :: state where
  "st_empty = \<lparr>positions = [], processed_alerts = []\<rparr>"



text \<open>
  The operations that change the state file: a call of \<open>webhook\<close> and an iteration of
  \<open>monitor_loop\<close>, in any environment and for any request; \<open>reachable\<close> files are
  those obtained from a first run (no state file) by these operations and by
  \<open>reset_state\<close>. A step is an operation that runs alone, from its load of the state to
  its last save: the relation does not describe a save of one thread that falls between
  the load and the save of another.
\<close>

inductive lifecycle_step :: "state_file \<Rightarrow> state_file \<Rightarrow> bool" where
  signal_step: "webhook ex req f = (res, f', rows) \<Longrightarrow> lifecycle_step f f'"
| monitor_step: "monitor_iteration ex td f = (eo, td', f', rows) \<Longrightarrow> lifecycle_step f f'"

inductive reachable :: "state_file \<Rightarrow> bool" where
  first_run: "reachable Missing"
| lifecycle: "reachable f \<Longrightarrow> lifecycle_step f f' \<Longrightarrow> reachable f'"
| reset: "reachable f \<Longrightarrow> reset_state ft f = (eo, f') \<Longrightarrow> reachable f'"

text \<open>
  A property \<open>P\<close> of states that survives the three ways in which the code changes a
  state in memory: writing a position that is not both active and pending, deleting a
  position, and recording an alert. \<open>file_ok P f\<close>: whatever \<open>load_state\<close> returns
  for \<open>f\<close> satisfies \<open>P\<close>.
\<close>

definition closed_under_updates :: "(state \<Rightarrow> bool) \<Rightarrow> bool" where
  "closed_under_updates P =
     ((\<forall>st k p. P st \<and> \<not> (is_active p \<and> pending_reinforcement p) \<longrightarrow>
          P (st\<lparr>positions := AList.update k p (positions st)\<rparr>))
    \<and> (\<forall>st k. P st \<longrightarrow> P (st\<lparr>positions := AList.delete k (positions st)\<rparr>))
    \<and> (\<forall>st a v. P st \<longrightarrow> P (st\<lparr>processed_alerts := AList.update a v (processed_alerts st)\<rparr>)))"

definition file_ok :: "(state \<Rightarrow> bool) \<Rightarrow> state_file \<Rightarrow> bool" where
  "file_ok P f = (\<forall>st. load_state f = Inr st \<longrightarrow> P st)"

text \<open>
  No stored position is active and pending reinforcement at once; an alert id is in
  \<^verbatim>\<open>processed_alerts\<close>; a ledger row of a manual close is backed by a position amount
  of \<open>0\<close>.
\<close>

definition positions_exclusive :: "state \<Rightarrow> bool" where
  "positions_exclusive st =
     list_all (\<lambda>sp. \<not> (is_active (snd sp) \<and> pending_reinforcement (snd sp))) (positions st)"

definition alert_recorded :: "string \<Rightarrow> state \<Rightarrow> bool" where
  "alert_recorded a st = (map_of (processed_alerts st) a \<noteq> None)"

definition manual_justified :: "env \<Rightarrow> history_row \<Rightarrow> bool" where
  "manual_justified ex r =
     (close_type r = ''MANUAL'' \<longrightarrow> get_position_amount ex (h_symbol r) = 0)"

text \<open>
  Further scenarios. \<open>env_later\<close>: the exchange of \<open>env_filled\<close> a day later.
  \<open>env_tp_hit\<close>, \<open>env_sl_hit\<close>: at time 5000 the order 8 (the take-profit), resp. 9
  (the stop-loss), is \<^verbatim>\<open>FILLED\<close> and every other order is \<^verbatim>\<open>NEW\<close>. \<open>env_manual\<close>: no
  order has fired and no order is open. \<open>env_query_down\<close>: the same, with the query of
  the open orders raising. \<open>env_ticker_down\<close>: order 8 is \<^verbatim>\<open>FILLED\<close>, \<^verbatim>\<open>BTCUSDC\<close> has no
  open order, and the ticker raises.
\<close>

definition env_later :: env where
  "env_later = env_filled\<lparr>now := 90000\<rparr>"

definition env_tp_hit :: env where
  "env_tp_hit =
     env_filled\<lparr>futures_get_order :=
       (\<lambda>s oid i. Inr \<lparr>status = (if oid = 8 then ''FILLED'' else ''NEW''), avgPrice = 0,
                        executedQty = 0\<rparr>),
       now := 5000\<rparr>"

definition env_sl_hit :: env where
  "env_sl_hit =
     env_filled\<lparr>futures_get_order :=
       (\<lambda>s oid i. Inr \<lparr>status = (if oid = 9 then ''FILLED'' else ''NEW''), avgPrice = 0,
                        executedQty = 0\<rparr>),
       now := 5000\<rparr>"

definition env_manual :: env where
  "env_manual =
     env_filled\<lparr>futures_get_order :=
       (\<lambda>s oid i. Inr \<lparr>status = ''NEW'', avgPrice = 0, executedQty = 0\<rparr>),
       futures_get_open_orders := (\<lambda>s. Inr []),
       now := 5000\<rparr>"

definition env_query_down :: env where
  "env_query_down = env_manual\<lparr>futures_get_open_orders := (\<lambda>s. Inl ''ReadTimeout'')\<rparr>"

definition env_ticker_down :: env where
  "env_ticker_down =
     env_filled\<lparr>futures_get_order :=
       (\<lambda>s oid i. Inr \<lparr>status = (if oid = 8 then ''FILLED'' else ''NEW''), avgPrice = 0,
                        executedQty = 0\<rparr>),
       futures_get_open_orders :=
         (\<lambda>s. if s = ''BTCUSDC'' then Inr [] else Inr [''TAKE_PROFIT_MARKET'', ''STOP_MARKET'']),
       futures_symbol_ticker := (\<lambda>s. Inl ''ReadTimeout''),
       now := 5000\<rparr>"

text \<open>
  Requests: a SELL signal, a BUY signal with a negative price, a BUY signal with price 0.
\<close>

definition req_sell :: request where
  "req_sell =
     \<lparr>req_signal = Some ''SELL'', req_symbol = Some ''ETHUSDC'', req_price = Some 2000,
      req_time = None\<rparr>"

definition req_neg :: request where
  "req_neg =
     \<lparr>req_signal = Some ''BUY'', req_symbol = Some ''ETHUSDC'', req_price = Some (- 2000),
      req_time = None\<rparr>"

definition req_zero :: request where
  "req_zero =
     \<lparr>req_signal = Some ''BUY'', req_symbol = Some ''ETHUSDC'', req_price = Some 0,
      req_time = None\<rparr>"

text \<open>
  States: \<open>st_stopped\<close> is \<open>st_open\<close> after its stop-loss fired (level 2 pending),
  \<open>st_pending\<close> the same with a SELL alert already recorded, \<open>st_closed\<close> is
  \<open>st_open\<close> after its take-profit fired, \<open>st_two\<close> holds two open positions.
\<close>

definition pos_stopped :: position where
  "pos_stopped = pos_buy\<lparr>is_active := False, pending_reinforcement := True, next_level := 2\<rparr>"

definition st_stopped :: state where
  "st_stopped =
     \<lparr>positions = [(''ETHUSDC'', pos_stopped)], processed_alerts = [(''ETHUSDC_BUY_'', 1000)]\<rparr>"

definition st_pending :: state where
  "st_pending =
     \<lparr>positions = [(''ETHUSDC'', pos_stopped)],
      processed_alerts = [(''ETHUSDC_SELL_'', 500), (''ETHUSDC_BUY_'', 1000)]\<rparr>"

definition st_closed :: state where
  "st_closed =
     \<lparr>positions = [(''ETHUSDC'', pos_buy\<lparr>is_active := False\<rparr>)],
      processed_alerts = [(''ETHUSDC_BUY_'', 1000)]\<rparr>"

definition pos_btc :: position where
  "pos_btc = pos_buy\<lparr>order_id := 17, tp_order_id := Some 18, sl_order_id := Some 19,
                      alert_id := ''BTCUSDC_BUY_''\<rparr>"

definition st_two :: state where
  "st_two =
     \<lparr>positions = [(''BTCUSDC'', pos_btc), (''ETHUSDC'', pos_buy)],
      processed_alerts = [(''BTCUSDC_BUY_'', 1000), (''ETHUSDC_BUY_'', 1000)]\<rparr>"

text \<open>
  \<open>st_reinforced\<close> is \<open>st_stopped\<close> after a SELL signal has activated the pending
  reinforcement on \<open>env_later\<close>. \<open>env_gone\<close>: a day later again, no order is open any
  more on the exchange.
\<close>

definition pos_reinforced :: position where
  "pos_reinforced =
     \<lparr>signal = ''SELL'', current_level = 2, is_active = True, quantity = 1 / 20,
      entry_price = 2000, pos_capital = 2, pos_leverage = 50, order_id = 7,
      tp_order_id = Some 8, sl_order_id = Some 9, alert_id = ''ETHUSDC_BUY_'',
      timestamp = At 90000, pending_reinforcement = False, next_level = 2\<rparr>"

definition st_reinforced :: state where
  "st_reinforced =
     \<lparr>positions = [(''ETHUSDC'', pos_reinforced)],
      processed_alerts = [(''ETHUSDC_BUY_'', 1000)]\<rparr>"

definition env_gone :: env where
  "env_gone = env_later\<lparr>futures_get_open_orders := (\<lambda>s. Inr []), now := 180000\<rparr>"

section \<open>Properties\<close>

subsection \<open>A quantity that is not positive\<close>

lemma open_position_invalid_quantity:
  "calculate_quantity ex 1 50 price symbol = Inr q \<Longrightarrow> q \<le> 0 \<Longrightarrow>
   open_position ex symbol sig price aid st f =
     (Inl (HTTPException 400 ''Quantite invalide''), f, [])"
  by (simp add: open_position_def py_index_def LEVELS_def)

lemma reinforce_invalid_quantity:
  "py_index LEVELS (next_level p - 1) = Inr cfg \<Longrightarrow>
   calculate_quantity ex (capital cfg) (leverage cfg) price symbol = Inr q \<Longrightarrow> q \<le> 0 \<Longrightarrow>
   reinforce ex symbol sig price st p f =
     (Inl (HTTPException 400 ''Quantite invalide''), f, [])"
  by (simp add: reinforce_def)

subsection \<open>Realized PnL\<close>


















subsection \<open>Waiting for the entry fill\<close>

text \<open>
  C5 fails on the code. When every poll reports the entry order \<^verbatim>\<open>CANCELED\<close>, the
  exception raised for the terminal status is caught by the \<^verbatim>\<open>except\<close> of the polling
  loop; the ten attempts run out, the ticker price 2001 is returned as the entry price,
  and \<open>webhook\<close> answers success and saves an active position.
\<close>

theorem canceled_entry_order_is_opened:
  "poll_order env_canceled ''ETHUSDC'' 7 0 = Inl (Exception ''Ordre CANCELED'')
   \<and> wait_for_order_execution env_canceled ''ETHUSDC'' 7 10 = Inr 2001
   \<and> webhook env_canceled req_buy Missing =
       (Inr (Success (Position_ouverte ''BUY'')
              \<lparr>d_symbol = ''ETHUSDC'', d_quantity = 1 / 40, d_entry_price = 2001,
               d_capital = 1, d_leverage = 50, d_order_id = 7, d_current_level = 1\<rparr>),
        Snapshot \<lparr>positions = [(''ETHUSDC'', pos_buy\<lparr>entry_price := 2001\<rparr>)],
                   processed_alerts = [(''ETHUSDC_BUY_'', 1000)]\<rparr>,
        [\<lparr>entry_type = ''POSITION_OPENED'', h_symbol = ''ETHUSDC'', direction = ''BUY'',
          level = 1, h_entry_price = 2001, h_quantity = 1 / 40, close_type = [],
          profit_loss = 0, next_reinforcement_level = 2\<rparr>])"
  by code_simp

subsection \<open>Saving the state\<close>

text \<open>
  C6, as amended. A save that completes leaves the new snapshot, which a load returns. A
  save that fails when the file is opened leaves the file as it was. A save that fails
  while writing leaves a truncated file, and a load of it raises: it returns neither the
  previous snapshot nor the new one.
\<close>

theorem save_state_outcomes:
  assumes "save_state ft st f = (eo, f')"
  shows "(ft = NoFault \<longrightarrow> eo = None \<and> f' = Snapshot st \<and> load_state f' = Inr st)
       \<and> (ft = OpenFails \<longrightarrow> eo = Some (Exception ''OSError'') \<and> f' = f)
       \<and> (ft = WriteFails \<longrightarrow>
            eo = Some (Exception ''OSError'') \<and> f' = Truncated
            \<and> load_state f' = Inl (Exception ''json.JSONDecodeError''))"
  using assms by (cases ft) (auto simp: save_state_def load_state_def)

theorem save_state_outcomes_witness:
  "save_state NoFault st_open (Snapshot st_empty) = (None, Snapshot st_open)
   \<and> load_state (Snapshot st_open) = Inr st_open"
proof -
  have h: "save_state NoFault st_open (Snapshot st_empty) = (None, Snapshot st_open)"
    by (simp add: save_state_def)
  show ?thesis using save_state_outcomes [OF h] h by simp
qed

text \<open>
  C6 as stated fails: a save of the empty state over the snapshot \<open>st_open\<close> that
  fails while writing leaves a file that is not the previous snapshot, and the next load
  raises.
\<close>

theorem save_state_counterexample:
  "save_state WriteFails st_empty (Snapshot st_open) = (Some (Exception ''OSError''), Truncated)
   \<and> Truncated \<noteq> Snapshot st_open
   \<and> load_state Truncated = Inl (Exception ''json.JSONDecodeError'')"
  by (simp add: save_state_def load_state_def)

subsection \<open>Exceptions of the signal handler\<close>

lemma save_state_cases:
  "save_state ft st f = (eo, f') \<Longrightarrow>
   (eo = None \<and> f' = Snapshot st) \<or> (eo \<noteq> None \<and> (f' = f \<or> f' = Truncated))"
  by (cases ft) (auto simp: save_state_def)

lemma calculate_quantity_error:
  "calculate_quantity ex cap lev price symbol = Inl e \<Longrightarrow> status_code e = None"
  by (auto simp: calculate_quantity_def get_step_size_def fetch_symbol_info_def round_qty_def
      Let_def split: if_splits sum.splits option.splits)

lemma wait_for_order_execution_error:
  "wait_for_order_execution ex symbol oid n = Inl e \<Longrightarrow> status_code e = None"
  by (auto simp: wait_for_order_execution_def split: option.splits sum.splits)

lemma place_binance_order_error:
  "place_binance_order ex symbol sig q cfg = Inl e \<Longrightarrow> status_code e = None"
  by (auto simp: place_binance_order_def Let_def
      dest: wait_for_order_execution_error split: option.splits sum.splits prod.splits)

lemma py_index_error: "py_index xs i = Inl e \<Longrightarrow> status_code e = None"
  by (auto simp: py_index_def split: if_splits)

lemma save_state_error: "save_state ft st f = (Some e, f') \<Longrightarrow> status_code e = None"
  by (cases ft) (auto simp: save_state_def)

lemma load_state_error: "load_state f = Inl e \<Longrightarrow> status_code e = None"
  by (cases f) (auto simp: load_state_def)

lemma reinforce_error:
  "reinforce ex symbol sig price st p f = (Inl e, f', rows) \<Longrightarrow>
   (status_code e = None \<or> e = HTTPException 400 ''Quantite invalide'')
   \<and> (f' = f \<or> f' = Truncated)"
  by (auto simp: reinforce_def Let_def
      dest: py_index_error calculate_quantity_error place_binance_order_error save_state_error
            save_state_cases
      split: sum.splits if_splits prod.splits option.splits)

lemma open_position_error:
  "open_position ex symbol sig price aid st f = (Inl e, f', rows) \<Longrightarrow>
   (status_code e = None \<or> e = HTTPException 400 ''Quantite invalide'')
   \<and> (f' = f \<or> f' = Truncated)"
  by (auto simp: open_position_def Let_def
      dest: py_index_error calculate_quantity_error place_binance_order_error save_state_error
            save_state_cases
      split: sum.splits if_splits prod.splits option.splits)

lemma dedup_and_open_error:
  "dedup_and_open ex symbol sig price t st f = (Inl e, f', rows) \<Longrightarrow>
   (status_code e = None \<or> e = HTTPException 400 ''Quantite invalide'')
   \<and> (f' = f \<or> f' = Truncated)"
  by (auto simp: dedup_and_open_def Let_def dest: open_position_error
      split: if_splits option.splits)

lemma webhook_locked_error:
  "webhook_locked ex symbol sig price t f = (Inl e, f', rows) \<Longrightarrow>
   (status_code e = None \<or> e = HTTPException 400 ''Quantite invalide'')
   \<and> (f' = f \<or> f' = Truncated)"
  by (auto simp: webhook_locked_def dest: dedup_and_open_error reinforce_error load_state_error
      split: sum.splits option.splits if_splits)

lemma levels_positive:
  assumes "py_index LEVELS i = Inr cfg"
  shows "0 < capital cfg \<and> 0 < leverage cfg"
proof -
  have "cfg \<in> set LEVELS"
    using assms by (auto simp: py_index_def split: if_splits intro: nth_mem)
  then show ?thesis unfolding LEVELS_def by auto
qed

lemma round_qty_nonpos:
  assumes "raw \<le> 0" and "round_qty raw step = Inr q"
  shows "q \<le> 0"
proof -
  have s: "step \<noteq> 0" and q: "q = of_int (int_part (raw / step)) * step"
    using assms(2) by (auto simp: round_qty_def split: if_splits)
  show ?thesis
  proof (cases "0 < step")
    case True
    then have "raw / step \<le> 0" using assms(1) by (simp add: divide_le_0_iff)
    then have "int_part (raw / step) \<le> 0"
      by (auto simp: int_part_def ceiling_le_zero)
    then have "of_int (int_part (raw / step)) \<le> (0::rat)" by simp
    then show ?thesis using True q by (simp add: mult_le_0_iff)
  next
    case False
    then have neg: "step < 0" using s by simp
    then have "0 \<le> raw / step" using assms(1) by (simp add: zero_le_divide_iff)
    then have "0 \<le> int_part (raw / step)" by (simp add: int_part_def)
    then have "(0::rat) \<le> of_int (int_part (raw / step))" by simp
    then show ?thesis using neg q by (simp add: mult_le_0_iff)
  qed
qed

lemma calculate_quantity_neg_price:
  assumes "price < 0" and "0 < cap" and "0 < lev"
    and "calculate_quantity ex cap lev price symbol = Inr q"
  shows "q \<le> 0"
proof -
  have "cap * lev / price \<le> 0" using assms(1-3) by (simp add: divide_le_0_iff)
  moreover obtain step where "round_qty (cap * lev / price) step = Inr q"
    using assms(1,4) by (auto simp: calculate_quantity_def Let_def split: sum.splits)
  ultimately show ?thesis by (rule round_qty_nonpos)
qed

lemma open_position_neg_price:
  "price < 0 \<Longrightarrow> open_position ex symbol sig price aid st f = (Inr r, f', rows) \<Longrightarrow> False"
  by (auto simp: open_position_def Let_def
      dest: calculate_quantity_neg_price [rotated 3] levels_positive
      split: sum.splits if_splits prod.splits option.splits)

lemma reinforce_neg_price:
  "price < 0 \<Longrightarrow> reinforce ex symbol sig price st p f = (Inr r, f', rows) \<Longrightarrow> False"
  by (auto simp: reinforce_def Let_def
      dest: calculate_quantity_neg_price [rotated 3] levels_positive
      split: sum.splits if_splits prod.splits option.splits)

lemma webhook_locked_neg_price:
  "price < 0 \<Longrightarrow> webhook_locked ex symbol sig price t f = (Inr r, f', rows) \<Longrightarrow>
   (r = Ignored ''duplicate_alert'' \<or> r = Ignored ''position_already_open'') \<and> f' = f \<and> rows = []"
  by (auto simp: webhook_locked_def dedup_and_open_def Let_def
      dest: open_position_neg_price reinforce_neg_price
      split: sum.splits if_splits option.splits)

lemma webhook_try_valid:
  "req_signal req = Some sg \<Longrightarrow> sg \<noteq> [] \<Longrightarrow> default_price req \<noteq> 0 \<Longrightarrow>
   lock_acquire ex (default_symbol req) \<Longrightarrow>
   webhook_try ex req f =
     webhook_locked ex (default_symbol req) sg (default_price req) (req_time req) f"
  by (simp add: webhook_try_def)

lemma webhook_result:
  "webhook ex req f = (res, f', rows) \<Longrightarrow>
   (\<exists>r. res = Inr r \<and> webhook_try ex req f = (Inr r, f', rows))
   \<or> (\<exists>e. res = Inl (HTTPException_500 e) \<and> webhook_try ex req f = (Inl e, f', rows))"
  by (auto simp: webhook_def split: prod.splits sum.splits)

text \<open>
  C7, as amended. The body of \<open>webhook\<close> raises its validation exception (status 400,
  ``signal or price missing'') exactly when the signal is absent or empty or the price,
  \<open>0\<close> when absent, equals \<open>0\<close>. A negative price passes the validation; such a
  signal never opens a position: when the handler answers without an exception, the
  answer is ``ignored'' and neither the state file nor the ledger changes.
\<close>

theorem signal_validation:
  "(fst (webhook_try ex req f) = Inl (HTTPException 400 ''Signal ou prix manquant'')
      \<longleftrightarrow> req_signal req = None \<or> req_signal req = Some [] \<or> default_price req = 0)
   \<and> (default_price req < 0 \<longrightarrow>
        (\<forall>r f' rows. webhook_try ex req f = (Inr r, f', rows) \<longrightarrow>
           (r = Ignored ''duplicate_alert'' \<or> r = Ignored ''position_already_open'')
           \<and> f' = f \<and> rows = []))"
proof -
  have a: "fst (webhook_try ex req f) = Inl (HTTPException 400 ''Signal ou prix manquant'')
      \<longleftrightarrow> req_signal req = None \<or> req_signal req = Some [] \<or> default_price req = 0"
  proof (cases "req_signal req = None \<or> req_signal req = Some [] \<or> default_price req = 0")
    case True
    then show ?thesis
      by (auto simp: webhook_try_def Let_def split: option.splits)
  next
    case False
    then obtain sg where sg: "req_signal req = Some sg" "sg \<noteq> []" "default_price req \<noteq> 0"
      by auto
    show ?thesis
    proof (cases "lock_acquire ex (default_symbol req)")
      case True
      have "fst (webhook_locked ex (default_symbol req) sg (default_price req) (req_time req) f)
              \<noteq> Inl (HTTPException 400 ''Signal ou prix manquant'')"
      proof
        assume h: "fst (webhook_locked ex (default_symbol req) sg (default_price req)
                     (req_time req) f) = Inl (HTTPException 400 ''Signal ou prix manquant'')"
        obtain f' rows where
          "webhook_locked ex (default_symbol req) sg (default_price req) (req_time req) f =
             (Inl (HTTPException 400 ''Signal ou prix manquant''), f', rows)"
          using h by (metis fst_conv prod.exhaust)
        from webhook_locked_error [OF this] show False by simp
      qed
      then show ?thesis using False sg True by (simp add: webhook_try_valid)
    next
      case nolock: False
      then show ?thesis using False sg
        by (simp add: webhook_try_def)
    qed
  qed
  have b: "default_price req < 0 \<longrightarrow>
        (\<forall>r f' rows. webhook_try ex req f = (Inr r, f', rows) \<longrightarrow>
           (r = Ignored ''duplicate_alert'' \<or> r = Ignored ''position_already_open'')
           \<and> f' = f \<and> rows = [])"
  proof (intro impI allI)
    fix r f' rows
    assume neg: "default_price req < 0" and w: "webhook_try ex req f = (Inr r, f', rows)"
    then obtain sg where sg: "req_signal req = Some sg" "sg \<noteq> []"
      "lock_acquire ex (default_symbol req)"
      by (auto simp: webhook_try_def Let_def split: option.splits if_splits)
    have "webhook_locked ex (default_symbol req) sg (default_price req) (req_time req) f =
            (Inr r, f', rows)"
      using w sg neg by (simp add: webhook_try_valid)
    from webhook_locked_neg_price [OF neg this]
    show "(r = Ignored ''duplicate_alert'' \<or> r = Ignored ''position_already_open'')
           \<and> f' = f \<and> rows = []" .
  qed
  from a b show ?thesis by (rule conjI)
qed

theorem signal_validation_witness:
  "default_price req_zero = 0
   \<and> fst (webhook_try env_filled req_zero Missing) =
       Inl (HTTPException 400 ''Signal ou prix manquant'')
   \<and> default_price req_neg < 0
   \<and> fst (webhook_try env_filled req_neg Missing) = Inl (HTTPException 400 ''Quantite invalide'')
   \<and> fst (webhook_try env_filled req_neg Missing) \<noteq>
       Inl (HTTPException 400 ''Signal ou prix manquant'')"
proof -
  have z: "default_price req_zero = 0" by code_simp
  have n: "default_price req_neg < 0" by code_simp
  have s: "req_signal req_neg \<noteq> None" "req_signal req_neg \<noteq> Some []" by code_simp+
  have q: "fst (webhook_try env_filled req_neg Missing) = Inl (HTTPException 400 ''Quantite invalide'')"
    by code_simp
  have a: "fst (webhook_try env_filled req_zero Missing) =
       Inl (HTTPException 400 ''Signal ou prix manquant'')"
    using signal_validation [of env_filled req_zero Missing] z by blast
  have b: "fst (webhook_try env_filled req_neg Missing) \<noteq>
       Inl (HTTPException 400 ''Signal ou prix manquant'')"
    using signal_validation [of env_filled req_neg Missing] n s by auto
  from z a n q b show ?thesis by blast
qed

text \<open>
  C7 as stated fails: a BUY signal with price -2000 whose alert id is already recorded
  is answered ``ignored'', with no exception; on an empty state the same signal is
  stopped by the quantity check, not by the validation.
\<close>

theorem signal_validation_counterexample:
  "default_price req_neg = - 2000
   \<and> webhook env_filled req_neg (Snapshot st_open) =
       (Inr (Ignored ''duplicate_alert''), Snapshot st_open, [])
   \<and> webhook env_filled req_neg Missing =
       (Inl (HTTPException_500 (HTTPException 400 ''Quantite invalide'')), Missing, [])"
  by code_simp

subsection \<open>Reinforcement activation\<close>

lemma map_of_update_same: "map_of (AList.update k v al) k = Some v"
  by (simp add: update_conv')

lemma reinforce_success:
  assumes "reinforce ex symbol sig price st p f = (Inr r, f', rows)"
  shows "\<exists>p' d. f' = Snapshot (st\<lparr>positions := AList.update symbol p' (positions st)\<rparr>)
           \<and> signal p' = sig \<and> current_level p' = next_level p \<and> is_active p'
           \<and> \<not> pending_reinforcement p'
           \<and> r = Success (Renforcement sig (next_level p)) d"
  using assms
  by (auto simp: reinforce_def Let_def dest: save_state_cases
      split: sum.splits if_splits prod.splits option.splits)

text \<open>
  C1. For a valid signal that obtains the lock, on a symbol whose stored position is
  pending reinforcement: when \<open>webhook\<close> answers, the answer is the success of the
  reinforcement (never ``ignored''), the stored position has the direction of the new
  signal, the level that was stored as next level, is active and not pending, and the
  deduplication table is unchanged; when \<open>webhook\<close> raises, the state file is as it
  was or truncated by a failed save.
\<close>

theorem reinforcement_activation:
  assumes "req_signal req = Some sig" and "sig \<noteq> []" and "default_price req \<noteq> 0"
    and "lock_acquire ex (default_symbol req)"
    and "load_state f = Inr st"
    and "map_of (positions st) (default_symbol req) = Some p"
    and "pending_reinforcement p"
    and "webhook ex req f = (res, f', rows)"
  shows "(\<forall>r. res = Inr r \<longrightarrow>
           (\<exists>st' p' d. f' = Snapshot st'
              \<and> map_of (positions st') (default_symbol req) = Some p'
              \<and> signal p' = sig \<and> current_level p' = next_level p
              \<and> is_active p' \<and> \<not> pending_reinforcement p'
              \<and> processed_alerts st' = processed_alerts st
              \<and> r = Success (Renforcement sig (next_level p)) d))
       \<and> (\<forall>e. res = Inl e \<longrightarrow> f' = f \<or> f' = Truncated)"
proof -
  have t: "webhook_try ex req f =
             reinforce ex (default_symbol req) sig (default_price req) st p f"
    using assms(1-7) by (simp add: webhook_try_valid webhook_locked_def)
  have a: "\<forall>r. res = Inr r \<longrightarrow>
           (\<exists>st' p' d. f' = Snapshot st'
              \<and> map_of (positions st') (default_symbol req) = Some p'
              \<and> signal p' = sig \<and> current_level p' = next_level p
              \<and> is_active p' \<and> \<not> pending_reinforcement p'
              \<and> processed_alerts st' = processed_alerts st
              \<and> r = Success (Renforcement sig (next_level p)) d)"
  proof (intro allI impI)
    fix r assume "res = Inr r"
    then have "reinforce ex (default_symbol req) sig (default_price req) st p f = (Inr r, f', rows)"
      using webhook_result [OF assms(8)] t by auto
    from reinforce_success [OF this] obtain p' d where
      "f' = Snapshot (st\<lparr>positions := AList.update (default_symbol req) p' (positions st)\<rparr>)"
      "signal p' = sig" "current_level p' = next_level p" "is_active p'"
      "\<not> pending_reinforcement p'" "r = Success (Renforcement sig (next_level p)) d"
      by blast
    then show "\<exists>st' p' d. f' = Snapshot st'
              \<and> map_of (positions st') (default_symbol req) = Some p'
              \<and> signal p' = sig \<and> current_level p' = next_level p
              \<and> is_active p' \<and> \<not> pending_reinforcement p'
              \<and> processed_alerts st' = processed_alerts st
              \<and> r = Success (Renforcement sig (next_level p)) d"
      by (intro exI [of _ "st\<lparr>positions := AList.update (default_symbol req) p' (positions st)\<rparr>"]
          exI [of _ p'] exI [of _ d]) (simp add: map_of_update_same)
  qed
  have b: "\<forall>e. res = Inl e \<longrightarrow> f' = f \<or> f' = Truncated"
  proof (intro allI impI)
    fix e assume "res = Inl e"
    then obtain e' where
      "reinforce ex (default_symbol req) sig (default_price req) st p f = (Inl e', f', rows)"
      using webhook_result [OF assms(8)] t by auto
    from reinforce_error [OF this] show "f' = f \<or> f' = Truncated" by simp
  qed
  from a b show ?thesis by (rule conjI)
qed

theorem reinforcement_activation_witness:
  "alert_recorded (make_alert_id ''ETHUSDC'' ''SELL'' None) st_pending
   \<and> signal pos_stopped = ''BUY'' \<and> pending_reinforcement pos_stopped \<and> next_level pos_stopped = 2
   \<and> fst (webhook env_later req_sell (Snapshot st_pending)) =
       Inr (Success (Renforcement ''SELL'' 2)
             \<lparr>d_symbol = ''ETHUSDC'', d_quantity = 1 / 20, d_entry_price = 2000,
              d_capital = 2, d_leverage = 50, d_order_id = 7, d_current_level = 2\<rparr>)
   \<and> (\<exists>st' p'. fst (snd (webhook env_later req_sell (Snapshot st_pending))) = Snapshot st'
          \<and> map_of (positions st') ''ETHUSDC'' = Some p'
          \<and> signal p' = ''SELL'' \<and> current_level p' = 2 \<and> is_active p'
          \<and> \<not> pending_reinforcement p'
          \<and> processed_alerts st' = processed_alerts st_pending)"
proof -
  obtain res f' rows where w: "webhook env_later req_sell (Snapshot st_pending) = (res, f', rows)"
    by (metis prod_cases3)
  have r: "fst (webhook env_later req_sell (Snapshot st_pending)) =
       Inr (Success (Renforcement ''SELL'' 2)
             \<lparr>d_symbol = ''ETHUSDC'', d_quantity = 1 / 20, d_entry_price = 2000,
              d_capital = 2, d_leverage = 50, d_order_id = 7, d_current_level = 2\<rparr>)"
    by code_simp
  have h1: "req_signal req_sell = Some ''SELL''" by code_simp
  have h2: "''SELL'' \<noteq> []" by simp
  have h3: "default_price req_sell \<noteq> 0" by code_simp
  have sym: "default_symbol req_sell = ''ETHUSDC''" by code_simp
  have h4: "lock_acquire env_later (default_symbol req_sell)" by code_simp
  have h5: "load_state (Snapshot st_pending) = Inr st_pending" by (simp add: load_state_def)
  have h6: "map_of (positions st_pending) (default_symbol req_sell) = Some pos_stopped"
    by (simp add: sym st_pending_def)
  have h7: "pending_reinforcement pos_stopped" by code_simp
  have k: "alert_recorded (make_alert_id ''ETHUSDC'' ''SELL'' None) st_pending" by code_simp
  have s: "signal pos_stopped = ''BUY''" by code_simp
  have nl: "next_level pos_stopped = 2" by code_simp
  from reinforcement_activation [OF h1 h2 h3 h4 h5 h6 h7 w] r w
  have "\<exists>st' p'. f' = Snapshot st'
          \<and> map_of (positions st') ''ETHUSDC'' = Some p'
          \<and> signal p' = ''SELL'' \<and> current_level p' = 2 \<and> is_active p'
          \<and> \<not> pending_reinforcement p'
          \<and> processed_alerts st' = processed_alerts st_pending"
    by (simp only: sym nl fst_conv) blast
  with k s h7 nl r w show ?thesis by simp
qed

subsection \<open>Invariants of the state file\<close>

lemma file_ok_simps:
  "file_ok P Truncated" "file_ok P (Snapshot st) = P st"
  by (simp_all add: file_ok_def load_state_def)

lemma cuD1:
  "closed_under_updates P \<Longrightarrow> P st \<Longrightarrow> \<not> (is_active p \<and> pending_reinforcement p) \<Longrightarrow>
   P (st\<lparr>positions := AList.update k p (positions st)\<rparr>)"
  unfolding closed_under_updates_def by blast

lemma cuD2:
  "closed_under_updates P \<Longrightarrow> P st \<Longrightarrow> P (st\<lparr>positions := AList.delete k (positions st)\<rparr>)"
  unfolding closed_under_updates_def by blast

lemma cuD3:
  "closed_under_updates P \<Longrightarrow> P st \<Longrightarrow>
   P (st\<lparr>processed_alerts := AList.update a v (processed_alerts st)\<rparr>)"
  unfolding closed_under_updates_def by blast

lemma save_state_ok:
  "save_state ft st f = (eo, f') \<Longrightarrow> P st \<Longrightarrow> file_ok P f \<Longrightarrow> file_ok P f'"
  by (cases ft) (auto simp: save_state_def file_ok_simps)

lemma reinforce_ok:
  assumes "closed_under_updates P" and "P st" and "file_ok P f"
    and "reinforce ex symbol sig price st p f = (res, f', rows)"
  shows "file_ok P f'"
proof (cases res)
  case (Inl e)
  then show ?thesis using reinforce_error assms(3,4) by (fastforce simp: file_ok_simps)
next
  case (Inr r)
  then obtain p' where "f' = Snapshot (st\<lparr>positions := AList.update symbol p' (positions st)\<rparr>)"
    "is_active p'" "\<not> pending_reinforcement p'"
    using reinforce_success assms(4) by blast
  then show ?thesis using cuD1 [OF assms(1,2)] by (simp add: file_ok_simps)
qed

lemma open_position_success:
  assumes "open_position ex symbol sig price aid st f = (Inr r, f', rows)"
  shows "\<exists>p' d. f' = Snapshot (st\<lparr>positions := AList.update symbol p' (positions st)\<rparr>)
           \<and> signal p' = sig \<and> current_level p' = 1 \<and> is_active p'
           \<and> \<not> pending_reinforcement p' \<and> alert_id p' = aid
           \<and> r = Success (Position_ouverte sig) d"
  using assms
  by (auto simp: open_position_def Let_def dest: save_state_cases
      split: sum.splits if_splits prod.splits option.splits)

lemma open_position_ok:
  assumes "closed_under_updates P" and "P st" and "file_ok P f"
    and "open_position ex symbol sig price aid st f = (res, f', rows)"
  shows "file_ok P f'"
proof (cases res)
  case (Inl e)
  then show ?thesis using open_position_error assms(3,4) by (fastforce simp: file_ok_simps)
next
  case (Inr r)
  then obtain p' where "f' = Snapshot (st\<lparr>positions := AList.update symbol p' (positions st)\<rparr>)"
    "is_active p'" "\<not> pending_reinforcement p'"
    using open_position_success assms(4) by blast
  then show ?thesis using cuD1 [OF assms(1,2)] by (simp add: file_ok_simps)
qed

lemma dedup_and_open_ok:
  assumes "closed_under_updates P" and "P st" and "file_ok P f"
    and "dedup_and_open ex symbol sig price t st f = (res, f', rows)"
  shows "file_ok P f'"
proof -
  let ?aid = "make_alert_id symbol sig t"
  let ?st1 = "st\<lparr>processed_alerts := AList.update ?aid (int_part (now ex)) (processed_alerts st)\<rparr>"
  have p1: "P ?st1" using assms(1,2) by (rule cuD3)
  have p2: "P (?st1\<lparr>positions := AList.delete symbol (positions ?st1)\<rparr>)"
    using assms(1) p1 by (rule cuD2)
  from assms(4) consider "f' = f"
    | "open_position ex symbol sig price ?aid ?st1 f = (res, f', rows)"
    | "open_position ex symbol sig price ?aid
         (?st1\<lparr>positions := AList.delete symbol (positions ?st1)\<rparr>) f = (res, f', rows)"
    by (auto simp: dedup_and_open_def Let_def split: if_splits option.splits)
  then show ?thesis
  proof cases
    case 1
    then show ?thesis using assms(3) by simp
  next
    case 2
    from open_position_ok [OF assms(1) p1 assms(3) this] show ?thesis .
  next
    case 3
    from open_position_ok [OF assms(1) p2 assms(3) this] show ?thesis .
  qed
qed

lemma webhook_locked_ok:
  assumes "closed_under_updates P" and "file_ok P f"
    and "webhook_locked ex symbol sig price t f = (res, f', rows)"
  shows "file_ok P f'"
proof (cases "load_state f")
  case (Inl e)
  then show ?thesis using assms(2,3) by (simp add: webhook_locked_def)
next
  case (Inr st)
  then have p: "P st" using assms(2) by (simp add: file_ok_def)
  from assms(3) Inr consider p0 where "reinforce ex symbol sig price st p0 f = (res, f', rows)"
    | "dedup_and_open ex symbol sig price t st f = (res, f', rows)"
    by (auto simp: webhook_locked_def split: option.splits if_splits)
  then show ?thesis
  proof cases
    case 1
    from reinforce_ok [OF assms(1) p assms(2) this] show ?thesis .
  next
    case 2
    from dedup_and_open_ok [OF assms(1) p assms(2) this] show ?thesis .
  qed
qed

lemma webhook_ok:
  assumes "closed_under_updates P" and "file_ok P f" and "webhook ex req f = (res, f', rows)"
  shows "file_ok P f'"
proof -
  obtain res' where t: "webhook_try ex req f = (res', f', rows)"
    using webhook_result [OF assms(3)] by blast
  then consider "f' = f"
    | sg where "webhook_locked ex (default_symbol req) sg (default_price req) (req_time req) f
                  = (res', f', rows)"
    by (auto simp: webhook_try_def Let_def split: option.splits if_splits)
  then show ?thesis
  proof cases
    case 1
    then show ?thesis using assms(2) by simp
  next
    case 2
    from webhook_locked_ok [OF assms(1,2) this] show ?thesis .
  qed
qed

lemma handle_reinforcement_ok:
  assumes "closed_under_updates P" and "P (mem m)" and "file_ok P (disk m)"
    and "handle_reinforcement ex symbol cl p m = (eo, m')"
  shows "P (mem m') \<and> file_ok P (disk m')"
proof -
  define p' where "p' = (if int (length LEVELS) < cl + 1 then p\<lparr>is_active := False\<rparr>
      else p\<lparr>is_active := False, pending_reinforcement := True, next_level := cl + 1\<rparr>)"
  define st' where "st' = (mem m)\<lparr>positions := AList.update symbol p' (positions (mem m))\<rparr>"
  have "\<not> (is_active p' \<and> pending_reinforcement p')" by (simp add: p'_def)
  then have p: "P st'" unfolding st'_def by (rule cuD1 [OF assms(1,2)])
  obtain f' where s: "save_state (save_fault ex symbol) st' (disk m) = (eo, f')"
    and m': "m' = m\<lparr>mem := st', disk := f'\<rparr>"
    using assms(4)
    by (auto simp: handle_reinforcement_def Let_def p'_def st'_def split: prod.splits)
  from save_state_ok [OF s p assms(3)] p m' show ?thesis by simp
qed

lemma close_position_ok:
  assumes "closed_under_updates P" and "P (mem m)" and "file_ok P (disk m)"
    and "st' = (mem m)\<lparr>positions := AList.update symbol (p\<lparr>is_active := False\<rparr>) (positions (mem m))\<rparr>"
    and "save_state ft st' (disk m) = (eo, f')"
  shows "P st' \<and> file_ok P f'"
proof -
  have p: "P st'" unfolding assms(4) by (rule cuD1 [OF assms(1,2)]) simp
  from save_state_ok [OF assms(5) p assms(3)] p show ?thesis by simp
qed

lemma check_position_ok:
  assumes "closed_under_updates P" and "P (mem m)" and "file_ok P (disk m)"
    and "check_position ex m symbol p = (eo, m')"
  shows "P (mem m') \<and> file_ok P (disk m')"
proof -
  let ?st' = "(mem m)\<lparr>positions :=
                AList.update symbol (p\<lparr>is_active := False\<rparr>) (positions (mem m))\<rparr>"
  obtain e1 f1 where s: "save_state (save_fault ex symbol) ?st' (disk m) = (e1, f1)"
    by (cases "save_state (save_fault ex symbol) ?st' (disk m)")
  note c = close_position_ok [OF assms(1-3) refl s]
  show ?thesis
  proof (cases "order_fired ex symbol (tp_order_id p)")
    case True
    then have "mem m' = ?st'" "disk m' = f1"
      using assms(4) s by (auto simp: check_position_def Let_def)
    then show ?thesis using c by simp
  next
    case tp: False
    show ?thesis
    proof (cases "order_fired ex symbol (sl_order_id p)")
      case True
      then obtain row where
        h: "handle_reinforcement ex symbol (current_level p) p (m\<lparr>ledger := ledger m @ [row]\<rparr>)
             = (eo, m')"
        using assms(4) tp by (auto simp: check_position_def Let_def)
      have "P (mem (m\<lparr>ledger := ledger m @ [row]\<rparr>))"
        "file_ok P (disk (m\<lparr>ledger := ledger m @ [row]\<rparr>))"
        using assms(2,3) by simp_all
      from handle_reinforcement_ok [OF assms(1) this h] show ?thesis .
    next
      case sl: False
      show ?thesis
      proof (cases "get_position_amount ex symbol = 0 \<and> is_active p")
        case False
        then have "m' = m" using assms(4) tp sl by (auto simp: check_position_def)
        then show ?thesis using assms(2,3) by simp
      next
        case gone: True
        show ?thesis
        proof (cases "time_diff m")
          case None
          then have "m' = m" using assms(4) tp sl gone by (auto simp: check_position_def)
          then show ?thesis using assms(2,3) by simp
        next
          case (Some d)
          show ?thesis
          proof (cases "60 < d")
            case False
            then have "m' = m" using assms(4) tp sl gone Some by (auto simp: check_position_def)
            then show ?thesis using assms(2,3) by simp
          next
            case old: True
            show ?thesis
            proof (cases "futures_symbol_ticker ex symbol")
              case (Inl msg)
              then have "m' = m"
                using assms(4) tp sl gone Some old by (auto simp: check_position_def)
              then show ?thesis using assms(2,3) by simp
            next
              case (Inr current_price)
              then have "mem m' = ?st'" "disk m' = f1"
                using assms(4) tp sl gone Some old s
                by (auto simp: check_position_def Let_def)
              then show ?thesis using c by simp
            qed
          qed
        qed
      qed
    qed
  qed
qed

lemma process_position_ok:
  assumes "closed_under_updates P" and "P (mem m)" and "file_ok P (disk m)"
    and "process_position ex m sp = (eo, m')"
  shows "P (mem m') \<and> file_ok P (disk m')"
proof -
  have skip: "mem m' = mem m \<Longrightarrow> disk m' = disk m \<Longrightarrow> ?thesis"
    using assms(2,3) by simp
  have check: "P (mem m') \<and> file_ok P (disk m')"
    if a: "mem m1 = mem m" "disk m1 = disk m"
      and b: "check_position ex m1 (fst sp) (snd sp) = (eo, m')" for m1
  proof -
    have "P (mem m1)" "file_ok P (disk m1)" using assms(2,3) a by simp_all
    from check_position_ok [OF assms(1) this b] show ?thesis .
  qed
  show ?thesis
  proof (cases "is_active (snd sp)")
    case False
    then show ?thesis using assms(4) skip by (simp add: process_position_def Let_def)
  next
    case act: True
    show ?thesis
    proof (cases "timestamp (snd sp)")
      case NoTimestamp
      then show ?thesis using assms(4) act skip check [of m]
        by (cases "lock_acquire ex (fst sp)") (simp_all add: process_position_def Let_def)
    next
      case BadTimestamp
      then show ?thesis using assms(4) act skip by (simp add: process_position_def Let_def)
    next
      case (At t)
      let ?m1 = "m\<lparr>time_diff := Some (now ex - t)\<rparr>"
      have e: "mem ?m1 = mem m" "disk ?m1 = disk m" by simp_all
      show ?thesis
      proof (cases "now ex - t < 30 \<or> \<not> lock_acquire ex (fst sp)")
        case True
        then have "m' = ?m1" using assms(4) act At
          by (auto simp: process_position_def Let_def split: if_splits)
        then show ?thesis using skip by simp
      next
        case False
        then have "check_position ex ?m1 (fst sp) (snd sp) = (eo, m')"
          using assms(4) act At by (auto simp: process_position_def Let_def)
        from check [OF e this] show ?thesis .
      qed
    qed
  qed
qed

lemma for_positions_ok:
  assumes "closed_under_updates P"
  shows "P (mem m) \<Longrightarrow> file_ok P (disk m) \<Longrightarrow> for_positions ex m sps = (eo, m') \<Longrightarrow>
         P (mem m') \<and> file_ok P (disk m')"
proof (induction sps arbitrary: m)
  case Nil
  then show ?case by simp
next
  case (Cons sp sps)
  obtain e1 m1 where s: "process_position ex m sp = (e1, m1)" by (cases "process_position ex m sp")
  from process_position_ok [OF assms Cons.prems(1,2) s]
  have ok: "P (mem m1)" "file_ok P (disk m1)" by simp_all
  show ?case
  proof (cases e1)
    case None
    then have "for_positions ex m1 sps = (eo, m')" using Cons.prems(3) s by simp
    from Cons.IH [OF ok this] show ?thesis .
  next
    case (Some e)
    then have "m' = m1" using Cons.prems(3) s by simp
    then show ?thesis using ok by simp
  qed
qed

lemma monitor_iteration_ok:
  assumes "closed_under_updates P" and "file_ok P f"
    and "monitor_iteration ex td f = (eo, td', f', rows)"
  shows "file_ok P f'"
proof (cases "load_state f")
  case (Inl e)
  then show ?thesis using assms(2,3) by (simp add: monitor_iteration_def)
next
  case (Inr st)
  let ?m0 = "\<lparr>mem = st, disk = f, time_diff = td, ledger = []\<rparr>"
  obtain e1 m1 where s: "for_positions ex ?m0 (positions st) = (e1, m1)"
    by (cases "for_positions ex ?m0 (positions st)")
  have "P (mem ?m0)" "file_ok P (disk ?m0)" using assms(2) Inr by (simp_all add: file_ok_def)
  from for_positions_ok [OF assms(1) this s] have "file_ok P (disk m1)" by simp
  moreover have "f' = disk m1" using assms(3) Inr s by (simp add: monitor_iteration_def)
  ultimately show ?thesis by simp
qed

lemma lifecycle_step_ok:
  assumes "closed_under_updates P" and "file_ok P f" and "lifecycle_step f f'"
  shows "file_ok P f'"
  using assms(3)
proof cases
  case (signal_step ex req res rows)
  from webhook_ok [OF assms(1,2) this] show ?thesis .
next
  case (monitor_step ex td eo td' rows)
  from monitor_iteration_ok [OF assms(1,2) this] show ?thesis .
qed

lemma set_update_subset: "set (AList.update k v al) \<subseteq> insert (k, v) (set al)"
  by (induction al) auto

lemma set_delete_subset: "set (AList.delete k al) \<subseteq> set al"
  by (auto simp: AList.delete_eq)

lemma closed_positions_exclusive: "closed_under_updates positions_exclusive"
  unfolding closed_under_updates_def positions_exclusive_def list_all_iff
  using set_update_subset set_delete_subset by fastforce

lemma reachable_exclusive: "reachable f \<Longrightarrow> file_ok positions_exclusive f"
proof (induction rule: reachable.induct)
  case first_run
  show ?case by (simp add: file_ok_def load_state_def positions_exclusive_def)
next
  case (lifecycle f f')
  from lifecycle_step_ok [OF closed_positions_exclusive lifecycle.IH lifecycle.hyps(2)]
  show ?case .
next
  case (reset f ft eo f')
  have "positions_exclusive \<lparr>positions = [], processed_alerts = []\<rparr>"
    by (simp add: positions_exclusive_def)
  from save_state_ok [OF reset.hyps(2) [unfolded reset_state_def] this reset.IH]
  show ?case .
qed

text \<open>
  C2. In every state file reachable from a first run by calls of \<open>webhook\<close>,
  iterations of the monitor and resets, no stored position is active and pending
  reinforcement at once.
\<close>

theorem mutual_exclusion:
  assumes "reachable f" and "f = Snapshot st" and "(symbol, p) \<in> set (positions st)"
  shows "\<not> (is_active p \<and> pending_reinforcement p)"
proof -
  have "positions_exclusive st"
    using reachable_exclusive [OF assms(1)] assms(2) by (simp add: file_ok_simps)
  then show ?thesis using assms(3) by (auto simp: positions_exclusive_def list_all_iff)
qed

theorem mutual_exclusion_witness:
  "reachable (Snapshot st_stopped)
   \<and> (''ETHUSDC'', pos_stopped) \<in> set (positions st_stopped)
   \<and> pending_reinforcement pos_stopped
   \<and> \<not> (is_active pos_stopped \<and> pending_reinforcement pos_stopped)"
proof -
  have w: "webhook env_filled req_buy Missing =
     (Inr (Success (Position_ouverte ''BUY'')
            \<lparr>d_symbol = ''ETHUSDC'', d_quantity = 1 / 40, d_entry_price = 2000,
             d_capital = 1, d_leverage = 50, d_order_id = 7, d_current_level = 1\<rparr>),
      Snapshot st_open,
      [\<lparr>entry_type = ''POSITION_OPENED'', h_symbol = ''ETHUSDC'', direction = ''BUY'',
        level = 1, h_entry_price = 2000, h_quantity = 1 / 40, close_type = [],
        profit_loss = 0, next_reinforcement_level = 2\<rparr>])"
    by code_simp
  have m: "monitor_iteration env_sl_hit None (Snapshot st_open) =
     (None, Some 4000, Snapshot st_stopped,
      [closed_row ''ETHUSDC'' pos_buy ''STOP_LOSS'' (- (3 / 20)) 2])"
    by code_simp
  have r1: "reachable (Snapshot st_open)"
    using reachable.lifecycle [OF reachable.first_run lifecycle_step.signal_step [OF w]] .
  have r2: "reachable (Snapshot st_stopped)"
    using reachable.lifecycle [OF r1 lifecycle_step.monitor_step [OF m]] .
  have i: "(''ETHUSDC'', pos_stopped) \<in> set (positions st_stopped)"
    by (simp add: st_stopped_def)
  have p: "pending_reinforcement pos_stopped" by code_simp
  from mutual_exclusion [OF r2 refl i] r2 i p show ?thesis by blast
qed

subsection \<open>Deduplication of signals without a time\<close>

lemma accepted_alert_recorded:
  assumes "webhook ex req f = (Inr (Success (Position_ouverte s) d), f1, rows)"
    and "req_signal req = Some sig"
  shows "sig \<noteq> [] \<and> (\<exists>st1. f1 = Snapshot st1
           \<and> alert_recorded (make_alert_id (default_symbol req) sig (req_time req)) st1)"
proof -
  let ?r = "Success (Position_ouverte s) d"
  let ?sym = "default_symbol req"
  let ?aid = "make_alert_id ?sym sig (req_time req)"
  have t: "webhook_try ex req f = (Inr ?r, f1, rows)"
    using webhook_result [OF assms(1)] by auto
  then have v: "sig \<noteq> []"
    and l: "webhook_locked ex ?sym sig (default_price req) (req_time req) f = (Inr ?r, f1, rows)"
    using assms(2) by (auto simp: webhook_try_def Let_def split: if_splits)
  obtain st where st: "load_state f = Inr st"
    using l by (auto simp: webhook_locked_def split: sum.splits)
  have "dedup_and_open ex ?sym sig (default_price req) (req_time req) st f = (Inr ?r, f1, rows)"
    using l st reinforce_success
    by (fastforce simp: webhook_locked_def split: option.splits if_splits)
  then obtain st0 where
    o: "open_position ex ?sym sig (default_price req) ?aid st0 f = (Inr ?r, f1, rows)"
    and a: "alert_recorded ?aid st0"
    by (auto simp: dedup_and_open_def Let_def alert_recorded_def update_conv'
        split: if_splits option.splits)
  from open_position_success [OF o] obtain p' where
    "f1 = Snapshot (st0\<lparr>positions := AList.update ?sym p' (positions st0)\<rparr>)" by blast
  then show ?thesis using v a by (auto simp: alert_recorded_def)
qed

lemma reinforcement_records_nothing:
  assumes "webhook ex req f = (Inr (Success (Renforcement s n) d), f1, rows)"
    and "load_state f = Inr st"
  shows "\<exists>st1. f1 = Snapshot st1 \<and> processed_alerts st1 = processed_alerts st"
proof -
  let ?r = "Success (Renforcement s n) d"
  have t: "webhook_try ex req f = (Inr ?r, f1, rows)"
    using webhook_result [OF assms(1)] by auto
  then obtain sg where
    l: "webhook_locked ex (default_symbol req) sg (default_price req) (req_time req) f
          = (Inr ?r, f1, rows)"
    by (auto simp: webhook_try_def Let_def split: option.splits if_splits)
  from l assms(2) consider p0 where
      "reinforce ex (default_symbol req) sg (default_price req) st p0 f = (Inr ?r, f1, rows)"
    | "dedup_and_open ex (default_symbol req) sg (default_price req) (req_time req) st f
         = (Inr ?r, f1, rows)"
    by (auto simp: webhook_locked_def split: option.splits if_splits)
  then show ?thesis
  proof cases
    case 1
    from reinforce_success [OF 1] show ?thesis by auto
  next
    case 2
    then obtain aid st0 where
      "open_position ex (default_symbol req) sg (default_price req) aid st0 f = (Inr ?r, f1, rows)"
      by (auto simp: dedup_and_open_def Let_def split: if_splits option.splits)
    from open_position_success [OF this] show ?thesis by auto
  qed
qed

lemma recorded_alert_is_duplicate:
  assumes "req_time req2 = None" and "req_signal req2 = Some sig" and "sig \<noteq> []"
    and "default_price req2 \<noteq> 0" and "lock_acquire ex2 (default_symbol req2)"
    and "load_state f2 = Inr st2"
    and "alert_recorded (default_symbol req2 @ ''_'' @ sig @ ''_'') st2"
    and "\<not> (\<exists>p. map_of (positions st2) (default_symbol req2) = Some p
               \<and> pending_reinforcement p)"
  shows "webhook ex2 req2 f2 = (Inr (Ignored ''duplicate_alert''), f2, [])"
proof -
  have "webhook_try ex2 req2 f2 =
          webhook_locked ex2 (default_symbol req2) sig (default_price req2) None f2"
    using webhook_try_valid [OF assms(2,3,4,5)] assms(1) by simp
  also have "\<dots> = dedup_and_open ex2 (default_symbol req2) sig (default_price req2) None st2 f2"
    using assms(6,8) by (auto simp: webhook_locked_def split: option.splits)
  also have "\<dots> = (Inr (Ignored ''duplicate_alert''), f2, [])"
    using assms(7) by (simp add: dedup_and_open_def alert_recorded_def make_alert_id_def)
  finally show ?thesis by (simp add: webhook_def)
qed

text \<open>
  C10, as amended. The alert id of a signal with no \<^verbatim>\<open>time\<close> field is the symbol, the
  direction and an empty time. The id is recorded in the state file when \<open>webhook\<close>
  opens a position for the signal; a signal that activates a pending reinforcement
  leaves the table of recorded ids as it was. Whenever the id of a valid signal with no
  time is in the state file that \<open>webhook\<close> loads, the signal obtains the lock and the
  position of its symbol is not pending reinforcement, the answer is
  ``ignored, duplicate alert'' and nothing changes, whatever the clock reads.
\<close>

theorem timeless_key_duplicate:
  "(req_time req = None \<longrightarrow>
      make_alert_id (default_symbol req) sig (req_time req) =
        default_symbol req @ ''_'' @ sig @ ''_'')
   \<and> (req_signal req = Some sig
        \<and> webhook ex req f = (Inr (Success (Position_ouverte s) d), f1, rows) \<longrightarrow>
        (\<exists>st1. f1 = Snapshot st1
           \<and> alert_recorded (make_alert_id (default_symbol req) sig (req_time req)) st1))
   \<and> (load_state f = Inr st
        \<and> webhook ex req f = (Inr (Success (Renforcement s n) d), f1, rows) \<longrightarrow>
        (\<exists>st1. f1 = Snapshot st1 \<and> processed_alerts st1 = processed_alerts st))
   \<and> (req_time req2 = None \<and> req_signal req2 = Some sig \<and> sig \<noteq> []
        \<and> default_price req2 \<noteq> 0 \<and> lock_acquire ex2 (default_symbol req2)
        \<and> load_state f2 = Inr st2
        \<and> alert_recorded (default_symbol req2 @ ''_'' @ sig @ ''_'') st2
        \<and> \<not> (\<exists>p. map_of (positions st2) (default_symbol req2) = Some p
                   \<and> pending_reinforcement p) \<longrightarrow>
        webhook ex2 req2 f2 = (Inr (Ignored ''duplicate_alert''), f2, []))"
proof -
  have a: "req_time req = None \<longrightarrow>
      make_alert_id (default_symbol req) sig (req_time req) =
        default_symbol req @ ''_'' @ sig @ ''_''"
    by (simp add: make_alert_id_def)
  have b: "req_signal req = Some sig
        \<and> webhook ex req f = (Inr (Success (Position_ouverte s) d), f1, rows) \<longrightarrow>
        (\<exists>st1. f1 = Snapshot st1
           \<and> alert_recorded (make_alert_id (default_symbol req) sig (req_time req)) st1)"
    using accepted_alert_recorded by blast
  have c: "load_state f = Inr st
        \<and> webhook ex req f = (Inr (Success (Renforcement s n) d), f1, rows) \<longrightarrow>
        (\<exists>st1. f1 = Snapshot st1 \<and> processed_alerts st1 = processed_alerts st)"
    using reinforcement_records_nothing by blast
  have d: "req_time req2 = None \<and> req_signal req2 = Some sig \<and> sig \<noteq> []
        \<and> default_price req2 \<noteq> 0 \<and> lock_acquire ex2 (default_symbol req2)
        \<and> load_state f2 = Inr st2
        \<and> alert_recorded (default_symbol req2 @ ''_'' @ sig @ ''_'') st2
        \<and> \<not> (\<exists>p. map_of (positions st2) (default_symbol req2) = Some p
                   \<and> pending_reinforcement p) \<longrightarrow>
        webhook ex2 req2 f2 = (Inr (Ignored ''duplicate_alert''), f2, [])"
    using recorded_alert_is_duplicate by blast
  from a b c d show ?thesis by (intro conjI)
qed

theorem timeless_key_duplicate_witness:
  "req_time req_buy = None
   \<and> make_alert_id ''ETHUSDC'' ''BUY'' None = ''ETHUSDC_BUY_''
   \<and> fst (webhook env_filled req_buy Missing) =
       Inr (Success (Position_ouverte ''BUY'')
             \<lparr>d_symbol = ''ETHUSDC'', d_quantity = 1 / 40, d_entry_price = 2000,
              d_capital = 1, d_leverage = 50, d_order_id = 7, d_current_level = 1\<rparr>)
   \<and> fst (snd (webhook env_filled req_buy Missing)) = Snapshot st_open
   \<and> alert_recorded ''ETHUSDC_BUY_'' st_open
   \<and> alert_recorded ''ETHUSDC_BUY_'' st_closed
   \<and> now env_later - now env_filled = 89000
   \<and> webhook env_later req_buy (Snapshot st_closed) =
       (Inr (Ignored ''duplicate_alert''), Snapshot st_closed, [])"
proof -
  have w: "webhook env_filled req_buy Missing =
     (Inr (Success (Position_ouverte ''BUY'')
            \<lparr>d_symbol = ''ETHUSDC'', d_quantity = 1 / 40, d_entry_price = 2000,
             d_capital = 1, d_leverage = 50, d_order_id = 7, d_current_level = 1\<rparr>),
      Snapshot st_open,
      [\<lparr>entry_type = ''POSITION_OPENED'', h_symbol = ''ETHUSDC'', direction = ''BUY'',
        level = 1, h_entry_price = 2000, h_quantity = 1 / 40, close_type = [],
        profit_loss = 0, next_reinforcement_level = 2\<rparr>])"
    by code_simp
  have h1: "req_time req_buy = None" by code_simp
  have h2: "req_signal req_buy = Some ''BUY''" by code_simp
  have h3: "''BUY'' \<noteq> []" by simp
  have sym: "default_symbol req_buy = ''ETHUSDC''" by code_simp
  have h4: "default_price req_buy \<noteq> 0" by code_simp
  have h5: "lock_acquire env_later (default_symbol req_buy)" by code_simp
  have h6: "load_state (Snapshot st_closed) = Inr st_closed" by (simp add: load_state_def)
  have k: "alert_recorded ''ETHUSDC_BUY_'' st_closed" by code_simp
  have h7: "alert_recorded (default_symbol req_buy @ ''_'' @ ''BUY'' @ ''_'') st_closed"
    using k by (simp add: sym)
  have h8: "\<not> (\<exists>p. map_of (positions st_closed) (default_symbol req_buy) = Some p
                 \<and> pending_reinforcement p)"
    by (simp add: sym st_closed_def pos_buy_def)
  have t: "now env_later - now env_filled = 89000" by code_simp
  have a: "make_alert_id ''ETHUSDC'' ''BUY'' None = ''ETHUSDC_BUY_''" by code_simp
  note t0 = timeless_key_duplicate
    [of req_buy "''BUY''" env_filled Missing "''BUY''"
        "\<lparr>d_symbol = ''ETHUSDC'', d_quantity = 1 / 40, d_entry_price = 2000,
          d_capital = 1, d_leverage = 50, d_order_id = 7, d_current_level = 1\<rparr>"
        "Snapshot st_open" _ _ _ req_buy env_later "Snapshot st_closed" st_closed]
  have r: "\<exists>st1. Snapshot st_open = Snapshot st1
             \<and> alert_recorded (make_alert_id (default_symbol req_buy) ''BUY'' (req_time req_buy)) st1"
    using t0 h2 w by blast
  then have o: "alert_recorded ''ETHUSDC_BUY_'' st_open"
    by (simp add: sym h1 a)
  have dup: "webhook env_later req_buy (Snapshot st_closed) =
       (Inr (Ignored ''duplicate_alert''), Snapshot st_closed, [])"
    using t0 h1 h2 h3 h4 h5 h6 h7 h8 by blast
  from h1 a w o k t dup show ?thesis by simp
qed

text \<open>
  C10 as stated fails: on \<open>st_stopped\<close> a SELL signal with no time is accepted by the
  reinforcement branch, and its alert id is not recorded. The same signal sent again,
  when the position is not pending and its orders are gone from the exchange, is not
  answered ``duplicate'': it opens a new position at level 1. While the orders are still
  open, the answer is ``position already open'', not ``duplicate alert''.
\<close>

theorem timeless_reinforcement_counterexample:
  "req_time req_sell = None
   \<and> make_alert_id ''ETHUSDC'' ''SELL'' None = ''ETHUSDC_SELL_''
   \<and> fst (webhook env_later req_sell (Snapshot st_stopped)) =
       Inr (Success (Renforcement ''SELL'' 2)
             \<lparr>d_symbol = ''ETHUSDC'', d_quantity = 1 / 20, d_entry_price = 2000,
              d_capital = 2, d_leverage = 50, d_order_id = 7, d_current_level = 2\<rparr>)
   \<and> fst (snd (webhook env_later req_sell (Snapshot st_stopped))) = Snapshot st_reinforced
   \<and> \<not> alert_recorded ''ETHUSDC_SELL_'' st_reinforced
   \<and> map_of (positions st_reinforced) ''ETHUSDC'' = Some pos_reinforced
   \<and> \<not> pending_reinforcement pos_reinforced
   \<and> fst (webhook env_later req_sell (Snapshot st_reinforced)) =
       Inr (Ignored ''position_already_open'')
   \<and> fst (webhook env_gone req_sell (Snapshot st_reinforced)) =
       Inr (Success (Position_ouverte ''SELL'')
             \<lparr>d_symbol = ''ETHUSDC'', d_quantity = 1 / 40, d_entry_price = 2000,
              d_capital = 1, d_leverage = 50, d_order_id = 7, d_current_level = 1\<rparr>)"
  by code_simp

subsection \<open>Errors in the monitor\<close>

lemma for_positions_append:
  "for_positions ex m (xs @ ys) =
     (case for_positions ex m xs of
        (Some e, m') \<Rightarrow> (Some e, m')
      | (None, m') \<Rightarrow> for_positions ex m' ys)"
  by (induction xs arbitrary: m) (auto split: prod.splits option.splits)

lemma monitor_loop_length: "length (fst (monitor_loop exs td f)) = length exs"
proof (induction exs arbitrary: td f)
  case Nil
  show ?case by simp
next
  case (Cons ex exs)
  obtain eo td' f' rows where i: "monitor_iteration ex td f = (eo, td', f', rows)"
    by (metis prod_cases4)
  obtain eos f'' rows' where l: "monitor_loop exs td' f' = (eos, f'', rows')"
    by (metis prod_cases3)
  have "length eos = length exs" using Cons.IH [of td' f'] l by simp
  then show ?case using i l by simp
qed

text \<open>
  C8, as amended. When the processing of a position raises, the iteration of the monitor
  ends there: its result is the one reached at the exception, whatever positions follow
  in the table, so those are not processed in this iteration. The exception is logged and
  the loop goes on with its next iteration, from the state file and the
  \<^verbatim>\<open>time_diff\<close> left behind.
\<close>

theorem monitor_error_skips_rest:
  assumes "load_state f = Inr st" and "positions st = pre @ sp # post"
    and "for_positions ex \<lparr>mem = st, disk = f, time_diff = td, ledger = []\<rparr> pre = (None, m1)"
    and "process_position ex m1 sp = (Some e, m2)"
  shows "monitor_iteration ex td f = (Some e, time_diff m2, disk m2, ledger m2)
       \<and> monitor_loop (ex # exs) td f =
           (case monitor_loop exs (time_diff m2) (disk m2) of
              (eos, f'', rows') \<Rightarrow> (Some e # eos, f'', ledger m2 @ rows'))
       \<and> length (fst (monitor_loop (ex # exs) td f)) = Suc (length exs)"
proof -
  have "for_positions ex \<lparr>mem = st, disk = f, time_diff = td, ledger = []\<rparr> (pre @ sp # post)
          = (Some e, m2)"
    using assms(3,4) by (simp add: for_positions_append)
  then have a: "monitor_iteration ex td f = (Some e, time_diff m2, disk m2, ledger m2)"
    using assms(1,2) by (simp add: monitor_iteration_def)
  then have b: "monitor_loop (ex # exs) td f =
           (case monitor_loop exs (time_diff m2) (disk m2) of
              (eos, f'', rows') \<Rightarrow> (Some e # eos, f'', ledger m2 @ rows'))"
    by simp
  from a b monitor_loop_length [of "ex # exs" td f] show ?thesis by simp
qed

theorem monitor_error_skips_rest_witness:
  "process_position env_ticker_down
     \<lparr>mem = st_two, disk = Snapshot st_two, time_diff = None, ledger = []\<rparr> (''BTCUSDC'', pos_btc) =
     (Some (Exception ''ReadTimeout''),
      \<lparr>mem = st_two, disk = Snapshot st_two, time_diff = Some 4000, ledger = []\<rparr>)
   \<and> monitor_iteration env_ticker_down None (Snapshot st_two) =
       (Some (Exception ''ReadTimeout''), Some 4000, Snapshot st_two, [])
   \<and> fst (monitor_loop [env_ticker_down, env_tp_hit] None (Snapshot st_two)) =
       [Some (Exception ''ReadTimeout''), None]"
proof -
  let ?m0 = "\<lparr>mem = st_two, disk = Snapshot st_two, time_diff = None, ledger = []\<rparr>"
  let ?m2 = "\<lparr>mem = st_two, disk = Snapshot st_two, time_diff = Some 4000, ledger = []\<rparr>"
  have h1: "load_state (Snapshot st_two) = Inr st_two" by (simp add: load_state_def)
  have h2: "positions st_two = [] @ (''BTCUSDC'', pos_btc) # [(''ETHUSDC'', pos_buy)]"
    by (simp add: st_two_def)
  have h3: "for_positions env_ticker_down ?m0 [] = (None, ?m0)" by simp
  have h4: "process_position env_ticker_down ?m0 (''BTCUSDC'', pos_btc) =
              (Some (Exception ''ReadTimeout''), ?m2)"
    by code_simp
  have n: "fst (monitor_loop [env_tp_hit] (Some 4000) (Snapshot st_two)) = [None]"
    by code_simp
  note t = monitor_error_skips_rest [OF h1 h2 h3 h4, of "[env_tp_hit]"]
  have a: "monitor_iteration env_ticker_down None (Snapshot st_two) =
       (Some (Exception ''ReadTimeout''), Some 4000, Snapshot st_two, [])"
    using t by simp
  have b: "fst (monitor_loop [env_ticker_down, env_tp_hit] None (Snapshot st_two)) =
       [Some (Exception ''ReadTimeout''), None]"
    using t n by (auto split: prod.splits)
  from h4 a b show ?thesis by blast
qed

text \<open>
  C8 as stated fails: with \<^verbatim>\<open>BTCUSDC\<close> before \<^verbatim>\<open>ETHUSDC\<close> in the table, the ticker
  raising while the manual close of \<^verbatim>\<open>BTCUSDC\<close> is handled ends the iteration; the
  position of \<^verbatim>\<open>ETHUSDC\<close>, whose take-profit order is filled, stays active and gets no
  ledger row, while the same iteration on \<^verbatim>\<open>ETHUSDC\<close> alone closes it.
\<close>

theorem monitor_isolation_counterexample:
  "monitor_iteration env_ticker_down None (Snapshot st_two) =
     (Some (Exception ''ReadTimeout''), Some 4000, Snapshot st_two, [])
   \<and> map_of (positions st_two) ''ETHUSDC'' = Some pos_buy \<and> is_active pos_buy
   \<and> order_fired env_ticker_down ''ETHUSDC'' (tp_order_id pos_buy)
   \<and> monitor_iteration env_ticker_down None
       (Snapshot (st_two\<lparr>positions := [(''ETHUSDC'', pos_buy)]\<rparr>)) =
     (None, Some 4000,
      Snapshot (st_two\<lparr>positions := [(''ETHUSDC'', pos_buy\<lparr>is_active := False\<rparr>)]\<rparr>),
      [closed_row ''ETHUSDC'' pos_buy ''TAKE_PROFIT'' (3 / 20) 1])"
  by code_simp

subsection \<open>The position footprint\<close>

lemma get_position_amount_zero:
  "get_position_amount ex symbol = 0 \<longleftrightarrow>
   (\<exists>types. futures_get_open_orders ex symbol = Inr types
      \<and> \<not> list_ex (\<lambda>t. t \<in> set [''STOP_MARKET'', ''TAKE_PROFIT_MARKET'']) types)"
  by (auto simp: get_position_amount_def split: sum.splits)

lemma handle_reinforcement_ledger:
  "handle_reinforcement ex symbol cl p m = (eo, m') \<Longrightarrow> ledger m' = ledger m"
  by (auto simp: handle_reinforcement_def Let_def split: prod.splits)

lemma check_position_ledger:
  assumes "check_position ex m symbol p = (eo, m')"
    and "list_all (manual_justified ex) (ledger m)"
  shows "list_all (manual_justified ex) (ledger m')"
proof (cases "order_fired ex symbol (tp_order_id p)")
  case True
  then show ?thesis using assms
    by (auto simp: check_position_def Let_def manual_justified_def closed_row_def
        split: prod.splits)
next
  case tp: False
  show ?thesis
  proof (cases "order_fired ex symbol (sl_order_id p)")
    case True
    then show ?thesis using assms tp
      by (auto simp: check_position_def Let_def manual_justified_def closed_row_def
          dest!: handle_reinforcement_ledger)
  next
    case sl: False
    show ?thesis
    proof (cases "get_position_amount ex symbol = 0 \<and> is_active p")
      case False
      then show ?thesis using assms tp sl by (auto simp: check_position_def)
    next
      case True
      then show ?thesis using assms tp sl
        by (auto simp: check_position_def Let_def manual_justified_def closed_row_def
            split: option.splits if_splits sum.splits prod.splits)
    qed
  qed
qed

lemma process_position_ledger:
  assumes "process_position ex m sp = (eo, m')"
    and "list_all (manual_justified ex) (ledger m)"
  shows "list_all (manual_justified ex) (ledger m')"
proof -
  have check: "list_all (manual_justified ex) (ledger m')"
    if "ledger m1 = ledger m" and "check_position ex m1 (fst sp) (snd sp) = (eo, m')" for m1
    using check_position_ledger [OF that(2)] that(1) assms(2) by simp
  show ?thesis
  proof (cases "is_active (snd sp)")
    case False
    then show ?thesis using assms by (simp add: process_position_def Let_def)
  next
    case act: True
    show ?thesis
    proof (cases "timestamp (snd sp)")
      case NoTimestamp
      then show ?thesis using assms act check [of m]
        by (cases "lock_acquire ex (fst sp)") (simp_all add: process_position_def Let_def)
    next
      case BadTimestamp
      then show ?thesis using assms act by (simp add: process_position_def Let_def)
    next
      case (At t)
      let ?m1 = "m\<lparr>time_diff := Some (now ex - t)\<rparr>"
      show ?thesis
      proof (cases "now ex - t < 30 \<or> \<not> lock_acquire ex (fst sp)")
        case True
        then have "m' = ?m1" using assms(1) act At
          by (auto simp: process_position_def Let_def split: if_splits)
        then show ?thesis using assms(2) by simp
      next
        case False
        then have "check_position ex ?m1 (fst sp) (snd sp) = (eo, m')"
          using assms(1) act At by (auto simp: process_position_def Let_def)
        from check [OF _ this] show ?thesis by simp
      qed
    qed
  qed
qed

lemma for_positions_ledger:
  "for_positions ex m sps = (eo, m') \<Longrightarrow> list_all (manual_justified ex) (ledger m) \<Longrightarrow>
   list_all (manual_justified ex) (ledger m')"
proof (induction sps arbitrary: m)
  case Nil
  then show ?case by simp
next
  case (Cons sp sps)
  obtain e1 m1 where s: "process_position ex m sp = (e1, m1)" by (cases "process_position ex m sp")
  from process_position_ledger [OF s Cons.prems(2)]
  have ok: "list_all (manual_justified ex) (ledger m1)" .
  show ?case
  proof (cases e1)
    case None
    then have "for_positions ex m1 sps = (eo, m')" using Cons.prems(1) s by simp
    from Cons.IH [OF this ok] show ?thesis .
  next
    case (Some e)
    then have "m' = m1" using Cons.prems(1) s by simp
    then show ?thesis using ok by simp
  qed
qed

text \<open>
  C9. \<open>get_position_amount\<close> returns \<open>1\<close> when the query of the open orders raises,
  and every manual close recorded by an iteration of the monitor is for a symbol whose
  query succeeded and listed no take-profit and no stop-loss order.
\<close>

theorem manual_close_needs_successful_query:
  "(futures_get_open_orders ex symbol = Inl msg \<longrightarrow> get_position_amount ex symbol = 1)
   \<and> (monitor_iteration ex td f = (eo, td', f', rows) \<and> r \<in> set rows
        \<and> close_type r = ''MANUAL'' \<longrightarrow>
        (\<exists>types. futures_get_open_orders ex (h_symbol r) = Inr types
           \<and> \<not> list_ex (\<lambda>t. t \<in> set [''STOP_MARKET'', ''TAKE_PROFIT_MARKET'']) types))"
proof -
  have a: "futures_get_open_orders ex symbol = Inl msg \<longrightarrow> get_position_amount ex symbol = 1"
    by (simp add: get_position_amount_def)
  have b: "\<exists>types. futures_get_open_orders ex (h_symbol r) = Inr types
           \<and> \<not> list_ex (\<lambda>t. t \<in> set [''STOP_MARKET'', ''TAKE_PROFIT_MARKET'']) types"
    if it: "monitor_iteration ex td f = (eo, td', f', rows)" and r: "r \<in> set rows"
      and man: "close_type r = ''MANUAL''"
  proof -
    have "list_all (manual_justified ex) rows"
    proof (cases "load_state f")
      case (Inl e)
      then show ?thesis using it by (simp add: monitor_iteration_def)
    next
      case (Inr st)
      let ?m0 = "\<lparr>mem = st, disk = f, time_diff = td, ledger = []\<rparr>"
      obtain e1 m1 where s: "for_positions ex ?m0 (positions st) = (e1, m1)"
        by (cases "for_positions ex ?m0 (positions st)")
      have "list_all (manual_justified ex) (ledger m1)"
        using for_positions_ledger [OF s] by simp
      moreover have "rows = ledger m1" using it Inr s by (simp add: monitor_iteration_def)
      ultimately show ?thesis by simp
    qed
    then have "get_position_amount ex (h_symbol r) = 0"
      using r man by (auto simp: list_all_iff manual_justified_def)
    then show ?thesis by (simp only: get_position_amount_zero)
  qed
  from a b show ?thesis by blast
qed

theorem manual_close_needs_successful_query_witness:
  "monitor_iteration env_manual None (Snapshot st_open) =
     (None, Some 4000, Snapshot st_closed,
      [closed_row ''ETHUSDC'' pos_buy ''MANUAL'' (1 / 40) 1])
   \<and> (\<exists>types. futures_get_open_orders env_manual ''ETHUSDC'' = Inr types
         \<and> \<not> list_ex (\<lambda>t. t \<in> set [''STOP_MARKET'', ''TAKE_PROFIT_MARKET'']) types)
   \<and> futures_get_open_orders env_query_down ''ETHUSDC'' = Inl ''ReadTimeout''
   \<and> get_position_amount env_query_down ''ETHUSDC'' = 1
   \<and> monitor_iteration env_query_down None (Snapshot st_open) =
       (None, Some 4000, Snapshot st_open, [])"
proof -
  let ?r = "closed_row ''ETHUSDC'' pos_buy ''MANUAL'' (1 / 40) 1"
  have m: "monitor_iteration env_manual None (Snapshot st_open) =
     (None, Some 4000, Snapshot st_closed, [?r])"
    by code_simp
  have c: "close_type ?r = ''MANUAL''" "h_symbol ?r = ''ETHUSDC''"
    by (simp_all add: closed_row_def)
  have q: "futures_get_open_orders env_query_down ''ETHUSDC'' = Inl ''ReadTimeout''" by code_simp
  have d: "monitor_iteration env_query_down None (Snapshot st_open) =
       (None, Some 4000, Snapshot st_open, [])"
    by code_simp
  note t1 = manual_close_needs_successful_query
    [of env_manual "''ETHUSDC''" "''x''" None "Snapshot st_open" None "Some 4000"
        "Snapshot st_closed" "[?r]" ?r]
  note t2 = manual_close_needs_successful_query
    [of env_query_down "''ETHUSDC''" "''ReadTimeout''" None "Snapshot st_open" None "Some 4000"
        "Snapshot st_open" "[]" ?r]
  have a: "\<exists>types. futures_get_open_orders env_manual ''ETHUSDC'' = Inr types
         \<and> \<not> list_ex (\<lambda>t. t \<in> set [''STOP_MARKET'', ''TAKE_PROFIT_MARKET'']) types"
    using t1 m c by simp
  have b: "get_position_amount env_query_down ''ETHUSDC'' = 1"
    using t2 q by blast
  from m a q b d show ?thesis by blast
qed

end
